theory Spec2Isabelle
  imports Main
begin

section \<open>The book controller of the e-library backend\<close>

text \<open>
  A shallow embedding of \<^verbatim>\<open>src/book/bookController.ts\<close>: the three request handlers
  \<^verbatim>\<open>createBook\<close>, \<^verbatim>\<open>updateBook\<close> and \<^verbatim>\<open>deleteBook\<close>. The handlers talk to three
  collaborators whose code is outside the controller: the local file system
  (\<^verbatim>\<open>node:fs\<close>), the remote object store (\<^verbatim>\<open>cloudinary.uploader\<close>) and the catalog
  store (\<^verbatim>\<open>bookModel\<close>). Their state is a record that the handlers pass along; what they
  answer to a call (a result or a thrown error) is a parameter of the model, so every
  theorem holds for every behaviour of the collaborators. Each call of a collaborator is
  appended to a log, which makes the order of the side effects a value one can state
  theorems about. \<^verbatim>\<open>console.log\<close> and \<^verbatim>\<open>console.error\<close> are left out.
\<close>

subsection \<open>JavaScript strings and arrays\<close>

text \<open>\<^verbatim>\<open>s.startsWith(p)\<close>.\<close>

definition startsWith :: "string \<Rightarrow> string \<Rightarrow> bool" where
  "startsWith s p = (take (length p) s = p)"

text \<open>\<^verbatim>\<open>s.includes(p)\<close>: \<^verbatim>\<open>p\<close> occurs somewhere in \<^verbatim>\<open>s\<close>.\<close>

fun js_includes :: "string \<Rightarrow> string \<Rightarrow> bool" where
  "js_includes [] p = (p = [])"
| "js_includes (c # cs) p = (startsWith (c # cs) p \<or> js_includes cs p)"

text \<open>
  \<^verbatim>\<open>s.split(sep)\<close> for a separator of one character. The result is never empty: the
  empty string splits into one empty piece.
\<close>

fun js_split :: "char \<Rightarrow> string \<Rightarrow> string list" where
  "js_split sep [] = [[]]"
| "js_split sep (c # cs) =
     (if c = sep then [] # js_split sep cs
      else (case js_split sep cs of
              [] \<Rightarrow> [[c]]
            | piece # pieces \<Rightarrow> (c # piece) # pieces))"

text \<open>
  \<^verbatim>\<open>xs.at(i)\<close>: a negative index counts from the end, and an index out of range gives
  \<^verbatim>\<open>undefined\<close>, here \<open>None\<close>.
\<close>

definition js_at :: "'a list \<Rightarrow> int \<Rightarrow> 'a option" where
  "js_at xs i =
     (if 0 \<le> i \<and> i < int (length xs) then Some (xs ! nat i)
      else if i < 0 \<and> - i \<le> int (length xs) then Some (xs ! nat (int (length xs) + i))
      else None)"

text \<open>What string concatenation makes of a value that may be \<^verbatim>\<open>undefined\<close>.\<close>

definition js_str :: "string option \<Rightarrow> string" where
  "js_str v = (case v of None \<Rightarrow> ''undefined'' | Some s \<Rightarrow> s)"

text \<open>\<^verbatim>\<open>!v\<close> for a value that is a string or \<^verbatim>\<open>undefined\<close>: both \<^verbatim>\<open>undefined\<close> and the
  empty string are falsy.\<close>

definition js_falsy :: "string option \<Rightarrow> bool" where
  "js_falsy v = (case v of None \<Rightarrow> True | Some s \<Rightarrow> s = [])"

subsection \<open>Data\<close>

text \<open>A file as the upload middleware (multer, disk storage) describes it.\<close>

record multer_file =
  mimetype :: string
  filename :: string

text \<open>\<^verbatim>\<open>req.files\<close>: each of the two fields \<^verbatim>\<open>coverImage\<close> and \<^verbatim>\<open>file\<close> is absent or an
  array of files.\<close>

record req_files =
  files_coverImage :: "multer_file list option"
  files_file :: "multer_file list option"

text \<open>
  The part of the request the handlers read: the three body fields (a string or
  \<^verbatim>\<open>undefined\<close>), \<^verbatim>\<open>req.files\<close> (which may be \<^verbatim>\<open>undefined\<close>), the authenticated caller
  \<^verbatim>\<open>userId\<close> and the route parameter \<^verbatim>\<open>bookId\<close>.
\<close>

record request =
  body_title :: "string option"
  body_genre :: "string option"
  body_description :: "string option"
  files :: "req_files option"
  userId :: string
  bookId :: string

text \<open>A catalog record; \<open>book_author\<close> is \<^verbatim>\<open>book.author.toString()\<close>. The identifier of
  a record is its key in the catalog.\<close>

record book =
  book_title :: string
  book_description :: string
  book_genre :: string
  book_author :: string
  book_coverImage :: string
  book_file :: string

text \<open>The update document handed to \<^verbatim>\<open>findOneAndUpdate\<close>.\<close>

record update_doc =
  upd_title :: "string option"
  upd_description :: "string option"
  upd_genre :: "string option"
  upd_coverImage :: string
  upd_file :: string

text \<open>The options of \<^verbatim>\<open>cloudinary.uploader.upload\<close>.\<close>

record upload_opts =
  resource_type :: "string option"
  filename_override :: string
  folder :: string
  format :: string

text \<open>A thrown error object, as far as the handlers look at it.\<close>

record js_error =
  err_name :: "string option"
  err_message :: "string option"
  err_code :: "string option"

text \<open>One call of a collaborator.\<close>

datatype event =
    EvExistsSync string
  | EvUnlink string
  | EvUpload string upload_opts
  | EvDestroy string "string option"
  | EvCreate book
  | EvFindOne string
  | EvFindOneAndUpdate string update_doc
  | EvDeleteOne string

text \<open>The state of the collaborators: the files on the local disk, the catalog, and the
  log of the calls made so far.\<close>

record world =
  fs :: "string set"
  catalog :: "string \<Rightarrow> book option"
  trace :: "event list"

text \<open>
  The behaviour of the collaborators. \<open>path_resolve\<close> is \<^verbatim>\<open>path.resolve\<close> and \<open>dirname\<close>
  is \<^verbatim>\<open>__dirname\<close>. An upload answers with its \<^verbatim>\<open>secure_url\<close> or throws; the creation of
  a record answers with the new identifier or throws; the other calls throw the error
  given here, if any. \<open>store_update\<close> is what the catalog store makes of an update
  document on the record it finds.
\<close>

record env =
  dirname :: string
  path_resolve :: "string list \<Rightarrow> string"
  cloudinary_upload :: "string \<Rightarrow> upload_opts \<Rightarrow> js_error + string"
  cloudinary_destroy :: "string \<Rightarrow> string option \<Rightarrow> js_error option"
  unlink_error :: "string \<Rightarrow> js_error option"
  create_result :: "book \<Rightarrow> js_error + string"
  findOne_error :: "string \<Rightarrow> js_error option"
  findOneAndUpdate_error :: "string \<Rightarrow> update_doc \<Rightarrow> js_error option"
  store_update :: "update_doc \<Rightarrow> book \<Rightarrow> book"
  deleteOne_error :: "string \<Rightarrow> js_error option"

text \<open>What a handler answers: \<^verbatim>\<open>next(createHttpError(status, message))\<close>, or a response
  with a status and a body.\<close>

datatype body = IdBody string | BookBody "book option" | EmptyBody

datatype outcome = Next nat string | Res nat body

subsection \<open>The calls of the collaborators\<close>

definition log_event :: "event \<Rightarrow> world \<Rightarrow> world" where
  "log_event e w = w\<lparr>trace := trace w @ [e]\<rparr>"

text \<open>\<^verbatim>\<open>fs.existsSync(p)\<close>.\<close>

definition existsSync :: "string \<Rightarrow> world \<Rightarrow> bool \<times> world" where
  "existsSync p w = (p \<in> fs w, log_event (EvExistsSync p) w)"

text \<open>The error of \<^verbatim>\<open>fs.promises.unlink\<close> on a path that does not exist.\<close>

definition enoent :: "string \<Rightarrow> js_error" where
  "enoent p =
     \<lparr>err_name = Some ''Error'',
      err_message = Some (''ENOENT: no such file or directory, unlink '' @ p),
      err_code = Some ''ENOENT''\<rparr>"

text \<open>\<^verbatim>\<open>await fs.promises.unlink(p)\<close>: throws on a missing file, throws what the file
  system refuses with, and removes the file otherwise.\<close>

definition unlink :: "env \<Rightarrow> string \<Rightarrow> world \<Rightarrow> (js_error + unit) \<times> world" where
  "unlink en p w =
     (let w1 = log_event (EvUnlink p) w in
      if p \<notin> fs w then (Inl (enoent p), w1)
      else (case unlink_error en p of
              Some e \<Rightarrow> (Inl e, w1)
            | None \<Rightarrow> (Inr (), w1\<lparr>fs := fs w1 - {p}\<rparr>)))"

text \<open>\<^verbatim>\<open>await cloudinary.uploader.upload(p, opts)\<close>.\<close>

definition upload :: "env \<Rightarrow> string \<Rightarrow> upload_opts \<Rightarrow> world \<Rightarrow> (js_error + string) \<times> world" where
  "upload en p opts w = (cloudinary_upload en p opts, log_event (EvUpload p opts) w)"

text \<open>\<^verbatim>\<open>await cloudinary.uploader.destroy(publicId, {resource_type})\<close>.\<close>

definition destroy :: "env \<Rightarrow> string \<Rightarrow> string option \<Rightarrow> world \<Rightarrow> (js_error + unit) \<times> world" where
  "destroy en pid rt w =
     ((case cloudinary_destroy en pid rt of Some e \<Rightarrow> Inl e | None \<Rightarrow> Inr ()),
      log_event (EvDestroy pid rt) w)"

text \<open>\<^verbatim>\<open>await bookModel.create(doc)\<close>: the record is stored under the identifier the
  store assigns.\<close>

definition bookModel_create :: "env \<Rightarrow> book \<Rightarrow> world \<Rightarrow> (js_error + string) \<times> world" where
  "bookModel_create en doc w =
     (let w1 = log_event (EvCreate doc) w in
      case create_result en doc of
        Inl e \<Rightarrow> (Inl e, w1)
      | Inr i \<Rightarrow> (Inr i, w1\<lparr>catalog := (catalog w1)(i \<mapsto> doc)\<rparr>))"

text \<open>\<^verbatim>\<open>await bookModel.findOne({ _id: bookId })\<close>.\<close>

definition bookModel_findOne :: "env \<Rightarrow> string \<Rightarrow> world \<Rightarrow> (js_error + book option) \<times> world" where
  "bookModel_findOne en i w =
     ((case findOne_error en i of Some e \<Rightarrow> Inl e | None \<Rightarrow> Inr (catalog w i)),
      log_event (EvFindOne i) w)"

text \<open>\<^verbatim>\<open>await bookModel.findOneAndUpdate({ _id: bookId }, doc, { new: true })\<close>: answers
  with the updated record, or with \<^verbatim>\<open>null\<close> when there is none.\<close>

definition bookModel_findOneAndUpdate ::
  "env \<Rightarrow> string \<Rightarrow> update_doc \<Rightarrow> world \<Rightarrow> (js_error + book option) \<times> world" where
  "bookModel_findOneAndUpdate en i u w =
     (let w1 = log_event (EvFindOneAndUpdate i u) w in
      case findOneAndUpdate_error en i u of
        Some e \<Rightarrow> (Inl e, w1)
      | None \<Rightarrow>
          (case catalog w i of
             None \<Rightarrow> (Inr None, w1)
           | Some b \<Rightarrow> (Inr (Some (store_update en u b)),
                        w1\<lparr>catalog := (catalog w1)(i \<mapsto> store_update en u b)\<rparr>)))"

text \<open>\<^verbatim>\<open>await bookModel.deleteOne({ _id: bookId })\<close>.\<close>

definition bookModel_deleteOne :: "env \<Rightarrow> string \<Rightarrow> world \<Rightarrow> (js_error + unit) \<times> world" where
  "bookModel_deleteOne en i w =
     (let w1 = log_event (EvDeleteOne i) w in
      case deleteOne_error en i of
        Some e \<Rightarrow> (Inl e, w1)
      | None \<Rightarrow> (Inr (), w1\<lparr>catalog := (catalog w1)(i := None)\<rparr>))"

subsection \<open>createBook\<close>

text \<open>The local path of an uploaded file, lines 49 to 60.\<close>

definition createBook_path :: "env \<Rightarrow> string \<Rightarrow> string" where
  "createBook_path en fileName =
     path_resolve en [dirname en, ''../../public/data/uploads'', fileName]"

text \<open>The options of the two uploads, lines 81 to 98.\<close>

definition cover_opts :: "string \<Rightarrow> string \<Rightarrow> upload_opts" where
  "cover_opts fileName mimeType =
     \<lparr>resource_type = None, filename_override = fileName,
      folder = ''book-covers'', format = mimeType\<rparr>"

definition pdf_opts :: "string \<Rightarrow> upload_opts" where
  "pdf_opts bookFileName =
     \<lparr>resource_type = Some ''raw'', filename_override = bookFileName,
      folder = ''book-pdfs'', format = ''pdf''\<rparr>"

text \<open>Lines 116 to 123: the clean-up after the record is created. The two deletions
  share one \<^verbatim>\<open>try\<close>, and what it catches is only logged.\<close>

definition createBook_cleanup :: "env \<Rightarrow> string \<Rightarrow> string \<Rightarrow> world \<Rightarrow> world" where
  "createBook_cleanup en filePath bookFilePath w =
     (case unlink en filePath w of
        (Inl e, w1) \<Rightarrow> w1
      | (Inr u, w1) \<Rightarrow> snd (unlink en bookFilePath w1))"

text \<open>Lines 105 to 112: the record handed to \<^verbatim>\<open>bookModel.create\<close>. The three body
  fields are strings here (the handler has returned on a falsy one), so \<open>js_str\<close> only
  takes the string out.\<close>

definition createBook_doc :: "request \<Rightarrow> string \<Rightarrow> string \<Rightarrow> book" where
  "createBook_doc req coverUrl fileUrl =
     \<lparr>book_title = js_str (body_title req),
      book_description = js_str (body_description req),
      book_genre = js_str (body_genre req),
      book_author = userId req,
      book_coverImage = coverUrl,
      book_file = fileUrl\<rparr>"

text \<open>Lines 76 to 125: the body of the \<^verbatim>\<open>try\<close>. \<open>Inl\<close> is an error thrown to the
  \<^verbatim>\<open>catch\<close>.\<close>

definition createBook_try ::
  "env \<Rightarrow> request \<Rightarrow> string \<Rightarrow> string \<Rightarrow> string \<Rightarrow> string \<Rightarrow> string \<Rightarrow> world
     \<Rightarrow> (js_error + outcome) \<times> world" where
  "createBook_try en req fileName filePath coverImageMimeType bookFileName bookFilePath w =
     (case upload en filePath (cover_opts fileName coverImageMimeType) w of
        (Inl e, w1) \<Rightarrow> (Inl e, w1)
      | (Inr uploadResult, w1) \<Rightarrow>
          (case upload en bookFilePath (pdf_opts bookFileName) w1 of
             (Inl e, w2) \<Rightarrow> (Inl e, w2)
           | (Inr bookFileUploadResult, w2) \<Rightarrow>
               (case bookModel_create en
                       (createBook_doc req uploadResult bookFileUploadResult) w2 of
                  (Inl e, w3) \<Rightarrow> (Inl e, w3)
                | (Inr newBook, w3) \<Rightarrow>
                    (Inr (Res 201 (IdBody newBook)),
                     createBook_cleanup en filePath bookFilePath w3))))"

text \<open>The error that the body of the \<^verbatim>\<open>try\<close> throws, if any, read off the answers
  of the collaborators: the first of the cover upload, the document upload and the
  creation of the record that throws.\<close>

definition createBook_thrown ::
  "env \<Rightarrow> request \<Rightarrow> multer_file \<Rightarrow> multer_file \<Rightarrow> js_error option" where
  "createBook_thrown en req coverImageFile bookFile =
     (case cloudinary_upload en (createBook_path en (filename coverImageFile))
             (cover_opts (filename coverImageFile)
                (last (js_split CHR ''/'' (mimetype coverImageFile)))) of
        Inl e \<Rightarrow> Some e
      | Inr uploadResult \<Rightarrow>
          (case cloudinary_upload en (createBook_path en (filename bookFile))
                  (pdf_opts (filename bookFile)) of
             Inl e \<Rightarrow> Some e
           | Inr bookFileUploadResult \<Rightarrow>
               (case create_result en
                       (createBook_doc req uploadResult bookFileUploadResult) of
                  Inl e \<Rightarrow> Some e
                | Inr newBook \<Rightarrow> None)))"

text \<open>Lines 133 to 145: the clean-up in the \<^verbatim>\<open>catch\<close>. Each deletion has its own
  existence check; both share one \<^verbatim>\<open>try\<close>.\<close>

definition createBook_cleanup_on_error :: "env \<Rightarrow> string \<Rightarrow> string \<Rightarrow> world \<Rightarrow> world" where
  "createBook_cleanup_on_error en filePath bookFilePath w =
     (let (e1, w1) = existsSync filePath w in
      case (if e1 then unlink en filePath w1 else (Inr (), w1)) of
        (Inl e, w2) \<Rightarrow> w2
      | (Inr u, w2) \<Rightarrow>
          (let (e2, w3) = existsSync bookFilePath w2 in
           if e2 then snd (unlink en bookFilePath w3) else w3))"

text \<open>Lines 147 to 169: the error handed to \<^verbatim>\<open>next\<close>.\<close>

definition createBook_error :: "js_error \<Rightarrow> outcome" where
  "createBook_error err =
     (if \<not> js_falsy (err_message err) \<and> js_includes (js_str (err_message err)) ''cloudinary''
      then Next 500 ''Error uploading files to cloud storage''
      else if err_name err = Some ''ValidationError''
      then Next 400 (''Invalid book data: '' @ js_str (err_message err))
      else if err_code err = Some ''ENOENT''
      then Next 400 ''File not found on server''
      else Next 500 (''Error while uploading the files: '' @ js_str (err_message err)))"

text \<open>Lines 36 to 170: what the handler does once both files are there. An array that
  \<^verbatim>\<open>split\<close> returns is never empty, so \<^verbatim>\<open>at(-1)\<close> of it is its last element.\<close>

definition createBook_files ::
  "env \<Rightarrow> request \<Rightarrow> multer_file \<Rightarrow> multer_file \<Rightarrow> world \<Rightarrow> outcome \<times> world" where
  "createBook_files en req coverImageFile bookFile w =
     (if \<not> startsWith (mimetype coverImageFile) ''image/''
      then (Next 400 ''Cover image must be an image file'', w)
      else if mimetype bookFile \<noteq> ''application/pdf''
      then (Next 400 ''Book file must be a PDF'', w)
      else
        (let coverImageMimeType = last (js_split CHR ''/'' (mimetype coverImageFile));
             fileName = filename coverImageFile;
             filePath = createBook_path en fileName;
             bookFileName = filename bookFile;
             bookFilePath = createBook_path en bookFileName;
             (e1, w1) = existsSync filePath w
         in if \<not> e1 then (Next 400 ''Cover image file not found on server'', w1)
            else
              (let (e2, w2) = existsSync bookFilePath w1
               in if \<not> e2 then (Next 400 ''Book file not found on server'', w2)
                  else
                    (case createBook_try en req fileName filePath coverImageMimeType
                            bookFileName bookFilePath w2 of
                       (Inr out, w3) \<Rightarrow> (out, w3)
                     | (Inl err, w3) \<Rightarrow>
                         (createBook_error err,
                          createBook_cleanup_on_error en filePath bookFilePath w3)))))"

text \<open>The handler, lines 10 to 171.\<close>

definition createBook :: "env \<Rightarrow> request \<Rightarrow> world \<Rightarrow> outcome \<times> world" where
  "createBook en req w =
     (if js_falsy (body_title req) \<or> js_falsy (body_genre req) \<or> js_falsy (body_description req)
      then (Next 400 ''Title, genre, and description are required'', w)
      else
        (case files req of
           None \<Rightarrow> (Next 400 ''Cover image is required'', w)
         | Some fls \<Rightarrow>
        (case files_coverImage fls of
           None \<Rightarrow> (Next 400 ''Cover image is required'', w)
         | Some [] \<Rightarrow> (Next 400 ''Cover image is required'', w)
         | Some (coverImageFile # cs) \<Rightarrow>
        (case files_file fls of
           None \<Rightarrow> (Next 400 ''Book file is required'', w)
         | Some [] \<Rightarrow> (Next 400 ''Book file is required'', w)
         | Some (bookFile # bs) \<Rightarrow> createBook_files en req coverImageFile bookFile w))))"

subsection \<open>updateBook\<close>

text \<open>The local path of an uploaded file, lines 210 to 213 and 250 to 253.\<close>

definition updateBook_path :: "env \<Rightarrow> string \<Rightarrow> string" where
  "updateBook_path en fileName =
     path_resolve en [dirname en, ''../../public/data/uploads/'' @ fileName]"

text \<open>
  Lines 195 to 239: the replacement of the cover image. \<open>Inl\<close> is an early \<^verbatim>\<open>return\<close>
  of the handler; \<open>Inr\<close> carries \<^verbatim>\<open>completeCoverImage\<close>. The upload and the deletion of
  the local file are in one \<^verbatim>\<open>try\<close>.
\<close>

definition updateBook_cover :: "env \<Rightarrow> request \<Rightarrow> world \<Rightarrow> (outcome + string) \<times> world" where
  "updateBook_cover en req w =
     (case files req of
        None \<Rightarrow> (Inr [], w)
      | Some fls \<Rightarrow>
     (case files_coverImage fls of
        None \<Rightarrow> (Inr [], w)
      | Some [] \<Rightarrow> (Inr [], w)
      | Some (cover # cs) \<Rightarrow>
          (let fileName = filename cover;
               converMimeType = last (js_split CHR ''/'' (mimetype cover))
           in if \<not> startsWith (mimetype cover) ''image/''
              then (Inl (Next 400 ''Cover image must be an image file''), w)
              else
                (let filePath = updateBook_path en fileName;
                     (e, w1) = existsSync filePath w
                 in if \<not> e then (Inl (Next 400 ''Cover image file not found on server''), w1)
                    else
                      (case upload en filePath (cover_opts fileName converMimeType) w1 of
                         (Inl uploadError, w2) \<Rightarrow>
                           (Inl (Next 500 ''Error uploading cover image''), w2)
                       | (Inr uploadResult, w2) \<Rightarrow>
                           (case unlink en filePath w2 of
                              (Inl uploadError, w3) \<Rightarrow>
                                (Inl (Next 500 ''Error uploading cover image''), w3)
                            | (Inr u, w3) \<Rightarrow> (Inr uploadResult, w3)))))))"

text \<open>Lines 241 to 278: the replacement of the book file, in the same way.\<close>

definition updateBook_file :: "env \<Rightarrow> request \<Rightarrow> world \<Rightarrow> (outcome + string) \<times> world" where
  "updateBook_file en req w =
     (case files req of
        None \<Rightarrow> (Inr [], w)
      | Some fls \<Rightarrow>
     (case files_file fls of
        None \<Rightarrow> (Inr [], w)
      | Some [] \<Rightarrow> (Inr [], w)
      | Some (bookFile # bs) \<Rightarrow>
          (let bookFileName = filename bookFile
           in if mimetype bookFile \<noteq> ''application/pdf''
              then (Inl (Next 400 ''Book file must be a PDF''), w)
              else
                (let bookFilePath = updateBook_path en bookFileName;
                     (e, w1) = existsSync bookFilePath w
                 in if \<not> e then (Inl (Next 400 ''Book file not found on server''), w1)
                    else
                      (case upload en bookFilePath (pdf_opts bookFileName) w1 of
                         (Inl uploadError, w2) \<Rightarrow>
                           (Inl (Next 500 ''Error uploading book file''), w2)
                       | (Inr uploadResultPdf, w2) \<Rightarrow>
                           (case unlink en bookFilePath w2 of
                              (Inl uploadError, w3) \<Rightarrow>
                                (Inl (Next 500 ''Error uploading book file''), w3)
                            | (Inr u, w3) \<Rightarrow> (Inr uploadResultPdf, w3)))))))"

text \<open>\<^verbatim>\<open>a || b\<close> on strings.\<close>

definition js_or :: "string \<Rightarrow> string \<Rightarrow> string" where
  "js_or a b = (if a = [] then b else a)"

text \<open>Lines 177 to 292: the body of the outer \<^verbatim>\<open>try\<close>.\<close>

definition updateBook_try :: "env \<Rightarrow> request \<Rightarrow> world \<Rightarrow> (js_error + outcome) \<times> world" where
  "updateBook_try en req w =
     (case bookModel_findOne en (bookId req) w of
        (Inl err, w1) \<Rightarrow> (Inl err, w1)
      | (Inr found, w1) \<Rightarrow>
     (case found of
        None \<Rightarrow> (Inr (Next 404 ''Book not found''), w1)
      | Some book \<Rightarrow>
          if book_author book \<noteq> userId req
          then (Inr (Next 403 ''You can not update others book.''), w1)
          else
            (case updateBook_cover en req w1 of
               (Inl out, w2) \<Rightarrow> (Inr out, w2)
             | (Inr completeCoverImage, w2) \<Rightarrow>
            (case updateBook_file en req w2 of
               (Inl out, w3) \<Rightarrow> (Inr out, w3)
             | (Inr completeFileName, w3) \<Rightarrow>
            (case bookModel_findOneAndUpdate en (bookId req)
                    \<lparr>upd_title = body_title req,
                     upd_description = body_description req,
                     upd_genre = body_genre req,
                     upd_coverImage = js_or completeCoverImage (book_coverImage book),
                     upd_file = js_or completeFileName (book_file book)\<rparr> w3 of
               (Inl err, w4) \<Rightarrow> (Inl err, w4)
             | (Inr updatedBook, w4) \<Rightarrow> (Inr (Res 200 (BookBody updatedBook)), w4))))))"

text \<open>The handler, lines 173 to 302.\<close>

definition updateBook :: "env \<Rightarrow> request \<Rightarrow> world \<Rightarrow> outcome \<times> world" where
  "updateBook en req w =
     (case updateBook_try en req w of
        (Inr out, w1) \<Rightarrow> (out, w1)
      | (Inl err, w1) \<Rightarrow>
          (Next 500 (''Error while updating the book: '' @ js_str (err_message err)), w1))"

subsection \<open>deleteBook\<close>

text \<open>Lines 360 to 364: the public identifier of the cover image, from its URL.\<close>

definition coverImagePublicId :: "string \<Rightarrow> string" where
  "coverImagePublicId url =
     (let coverFileSplits = js_split CHR ''/'' url
      in js_str (js_at coverFileSplits (- 2)) @ ''/'' @
         js_str (case js_at coverFileSplits (- 1) of
                   None \<Rightarrow> None
                 | Some l \<Rightarrow> js_at (js_split CHR ''.'' l) (- 2)))"

text \<open>Lines 366 to 368: the public identifier of the book file, from its URL.\<close>

definition bookFilePublicId :: "string \<Rightarrow> string" where
  "bookFilePublicId url =
     (let bookFileSplits = js_split CHR ''/'' url
      in js_str (js_at bookFileSplits (- 2)) @ ''/'' @ js_str (js_at bookFileSplits (- 1)))"

text \<open>Lines 374 to 385: the two remote deletions share one \<^verbatim>\<open>try\<close>, and what it
  catches is only logged.\<close>

definition deleteBook_remote :: "env \<Rightarrow> string \<Rightarrow> string \<Rightarrow> world \<Rightarrow> world" where
  "deleteBook_remote en coverId fileId w =
     (case destroy en coverId None w of
        (Inl cloudinaryError, w1) \<Rightarrow> w1
      | (Inr u, w1) \<Rightarrow> snd (destroy en fileId (Some ''raw'') w1))"

text \<open>Lines 345 to 389: the body of the outer \<^verbatim>\<open>try\<close>.\<close>

definition deleteBook_try :: "env \<Rightarrow> request \<Rightarrow> world \<Rightarrow> (js_error + outcome) \<times> world" where
  "deleteBook_try en req w =
     (case bookModel_findOne en (bookId req) w of
        (Inl err, w1) \<Rightarrow> (Inl err, w1)
      | (Inr found, w1) \<Rightarrow>
     (case found of
        None \<Rightarrow> (Inr (Next 404 ''Book not found''), w1)
      | Some book \<Rightarrow>
          if book_author book \<noteq> userId req
          then (Inr (Next 403 ''You can not delete others book.''), w1)
          else
            (let w2 = deleteBook_remote en (coverImagePublicId (book_coverImage book))
                        (bookFilePublicId (book_file book)) w1
             in case bookModel_deleteOne en (bookId req) w2 of
                  (Inl err, w3) \<Rightarrow> (Inl err, w3)
                | (Inr u, w3) \<Rightarrow> (Inr (Res 204 EmptyBody), w3))))"

text \<open>The handler, lines 342 to 396.\<close>

definition deleteBook :: "env \<Rightarrow> request \<Rightarrow> world \<Rightarrow> outcome \<times> world" where
  "deleteBook en req w =
     (case deleteBook_try en req w of
        (Inr out, w1) \<Rightarrow> (out, w1)
      | (Inl err, w1) \<Rightarrow>
          (Next 500 (''Error while deleting book: '' @ js_str (err_message err)), w1))"

subsection \<open>Observations on a request and on the log\<close>

text \<open>\<^verbatim>\<open>files.coverImage[0]\<close> and \<^verbatim>\<open>files.file[0]\<close>: the first file of a field of the
  request, if there is one.\<close>

definition first_file :: "multer_file list option \<Rightarrow> multer_file option" where
  "first_file fl = (case fl of None \<Rightarrow> None | Some [] \<Rightarrow> None | Some (f # rest) \<Rightarrow> Some f)"

definition request_file ::
  "(req_files \<Rightarrow> multer_file list option) \<Rightarrow> request \<Rightarrow> multer_file option" where
  "request_file field req =
     (case files req of None \<Rightarrow> None | Some fls \<Rightarrow> first_file (field fls))"

text \<open>The calls of \<^verbatim>\<open>cloudinary.uploader.upload\<close> in the log of a state.\<close>

fun is_upload :: "event \<Rightarrow> bool" where
  "is_upload (EvUpload p opts) = True"
| "is_upload e = False"

definition upload_calls :: "world \<Rightarrow> nat" where
  "upload_calls w = length (filter is_upload (trace w))"

subsection \<open>The preconditions of createBook, as the specification lists them\<close>

text \<open>
  The specification names the preconditions of \<^verbatim>\<open>createBook\<close> in an order: the three
  fields are not empty, the cover file is there, the document file is there, the cover's
  content type begins with \<^verbatim>\<open>image/\<close>, the document's content type is
  \<^verbatim>\<open>application/pdf\<close>, and both files are on the local disk. Each check is listed with
  the message of its error, and \<open>first_failure\<close> is the message of the first check that
  does not hold.
\<close>

definition createBook_checks :: "env \<Rightarrow> request \<Rightarrow> world \<Rightarrow> (bool \<times> string) list" where
  "createBook_checks en req w =
     (let coverFile = request_file files_coverImage req;
          documentFile = request_file files_file req
      in [(body_title req \<noteq> None \<and> body_title req \<noteq> Some [] \<and>
           body_genre req \<noteq> None \<and> body_genre req \<noteq> Some [] \<and>
           body_description req \<noteq> None \<and> body_description req \<noteq> Some [],
           ''Title, genre, and description are required''),
          (coverFile \<noteq> None, ''Cover image is required''),
          (documentFile \<noteq> None, ''Book file is required''),
          ((case coverFile of None \<Rightarrow> False
            | Some c \<Rightarrow> startsWith (mimetype c) ''image/''),
           ''Cover image must be an image file''),
          ((case documentFile of None \<Rightarrow> False
            | Some d \<Rightarrow> mimetype d = ''application/pdf''),
           ''Book file must be a PDF''),
          ((case coverFile of None \<Rightarrow> False
            | Some c \<Rightarrow> createBook_path en (filename c) \<in> fs w),
           ''Cover image file not found on server''),
          ((case documentFile of None \<Rightarrow> False
            | Some d \<Rightarrow> createBook_path en (filename d) \<in> fs w),
           ''Book file not found on server'')])"

fun first_failure :: "(bool \<times> string) list \<Rightarrow> string option" where
  "first_failure [] = None"
| "first_failure ((ok, m) # checks) = (if ok then first_failure checks else Some m)"

subsection \<open>Observations on a run\<close>

text \<open>The calls that a handler has added to the log, between the state it started from
  and the state it ended in.\<close>

definition events_since :: "world \<Rightarrow> world \<Rightarrow> event list" where
  "events_since w w' = drop (length (trace w)) (trace w')"

text \<open>An upload call that threw; the update of the catalog record; a deletion of a local
  file that the file system refuses; an upload call that succeeded for a local file whose
  deletion is refused.\<close>

fun upload_failed :: "env \<Rightarrow> event \<Rightarrow> bool" where
  "upload_failed en (EvUpload p opts) = isl (cloudinary_upload en p opts)"
| "upload_failed en e = False"

fun is_update :: "event \<Rightarrow> bool" where
  "is_update (EvFindOneAndUpdate i u) = True"
| "is_update e = False"

fun unlink_refused :: "env \<Rightarrow> event \<Rightarrow> bool" where
  "unlink_refused en (EvUnlink p) = (unlink_error en p \<noteq> None)"
| "unlink_refused en e = False"

fun uploaded_not_deleted :: "env \<Rightarrow> event \<Rightarrow> bool" where
  "uploaded_not_deleted en (EvUpload p opts) =
     (\<not> isl (cloudinary_upload en p opts) \<and> unlink_error en p \<noteq> None)"
| "uploaded_not_deleted en e = False"

subsection \<open>A concrete installation\<close>

text \<open>
  A request, a state and a behaviour of the collaborators on which the theorems below are
  run: every call succeeds, uploaded files live under \<^verbatim>\<open>/app/public/data/uploads/\<close>, and
  the object store answers with a URL made of the folder, the file name and the format.
\<close>

definition demo_resolve :: "string list \<Rightarrow> string" where
  "demo_resolve segments =
     ''/app/public/data/uploads/'' @
     (case segments of
        [d, u, f] \<Rightarrow> f
      | [d, uf] \<Rightarrow> drop 26 uf
      | _ \<Rightarrow> [])"

definition demo_url :: "upload_opts \<Rightarrow> string" where
  "demo_url opts =
     ''https://res.cloudinary.com/demo/upload/v1/'' @ folder opts @ ''/'' @
     filename_override opts @ ''.'' @ format opts"

text \<open>The store of the installation leaves a field as it was when the update document
  has \<^verbatim>\<open>undefined\<close> for it.\<close>

definition demo_update :: "update_doc \<Rightarrow> book \<Rightarrow> book" where
  "demo_update u b =
     b\<lparr>book_title := (case upd_title u of None \<Rightarrow> book_title b | Some t \<Rightarrow> t),
       book_description :=
         (case upd_description u of None \<Rightarrow> book_description b | Some d \<Rightarrow> d),
       book_genre := (case upd_genre u of None \<Rightarrow> book_genre b | Some g \<Rightarrow> g),
       book_coverImage := upd_coverImage u,
       book_file := upd_file u\<rparr>"

definition demo_env :: env where
  "demo_env =
     \<lparr>dirname = ''/app/src/book'',
      path_resolve = demo_resolve,
      cloudinary_upload = (\<lambda>p opts. Inr (demo_url opts)),
      cloudinary_destroy = (\<lambda>pid rt. None),
      unlink_error = (\<lambda>p. None),
      create_result = (\<lambda>doc. Inr ''b42''),
      findOne_error = (\<lambda>i. None),
      findOneAndUpdate_error = (\<lambda>i u. None),
      store_update = demo_update,
      deleteOne_error = (\<lambda>i. None)\<rparr>"

definition demo_cover :: multer_file where
  "demo_cover = \<lparr>mimetype = ''image/jpeg'', filename = ''c1''\<rparr>"

definition demo_pdf :: multer_file where
  "demo_pdf = \<lparr>mimetype = ''application/pdf'', filename = ''b1''\<rparr>"

definition demo_request :: request where
  "demo_request =
     \<lparr>body_title = Some ''Dune'', body_genre = Some ''SciFi'',
      body_description = Some ''A desert planet'',
      files = Some \<lparr>files_coverImage = Some [demo_cover], files_file = Some [demo_pdf]\<rparr>,
      userId = ''u1'', bookId = ''b42''\<rparr>"

definition demo_world :: world where
  "demo_world =
     \<lparr>fs = {''/app/public/data/uploads/c1'', ''/app/public/data/uploads/b1''},
      catalog = (\<lambda>i. None), trace = []\<rparr>"

definition demo_book :: book where
  "demo_book =
     \<lparr>book_title = ''Dune'', book_description = ''A desert planet'', book_genre = ''SciFi'',
      book_author = ''u1'',
      book_coverImage = ''https://res.cloudinary.com/demo/upload/v1/book-covers/c1.jpeg'',
      book_file = ''https://res.cloudinary.com/demo/upload/v1/book-pdfs/b1.pdf''\<rparr>"

text \<open>The state once \<open>demo_book\<close> is in the catalog.\<close>

definition demo_library :: world where
  "demo_library = demo_world\<lparr>catalog := (\<lambda>i. None)(''b42'' \<mapsto> demo_book)\<rparr>"

text \<open>The same request with a cover that is not an image.\<close>

definition demo_request_text_cover :: request where
  "demo_request_text_cover =
     demo_request\<lparr>files :=
       Some \<lparr>files_coverImage = Some [demo_cover\<lparr>mimetype := ''text/plain''\<rparr>],
             files_file = Some [demo_pdf]\<rparr>\<rparr>"

text \<open>Errors and behaviours for the runs below: a document upload that times out, a
  cover file that the file system refuses to delete, and a catalog store that rejects
  the record.\<close>

definition timeout_error :: js_error where
  "timeout_error =
     \<lparr>err_name = Some ''Error'', err_message = Some ''Request Timeout'', err_code = None\<rparr>"

definition eperm_error :: js_error where
  "eperm_error =
     \<lparr>err_name = Some ''Error'',
      err_message = Some ''EPERM: operation not permitted, unlink'',
      err_code = Some ''EPERM''\<rparr>"

definition enum_error :: js_error where
  "enum_error =
     \<lparr>err_name = Some ''ValidationError'',
      err_message = Some ''Book validation failed: genre: SciFi is not a valid enum value'',
      err_code = None\<rparr>"

definition url_error :: js_error where
  "url_error =
     \<lparr>err_name = Some ''ValidationError'',
      err_message = Some ''Book validation failed: coverImage: https://res.cloudinary.com/demo/upload/v1/book-covers/c1.jpeg is longer than the maximum allowed length'',
      err_code = None\<rparr>"

definition env_pdf_upload_fails :: env where
  "env_pdf_upload_fails =
     demo_env\<lparr>cloudinary_upload :=
       (\<lambda>p opts. if resource_type opts = Some ''raw'' then Inl timeout_error
                  else Inr (demo_url opts))\<rparr>"

definition env_cover_locked :: env where
  "env_cover_locked =
     env_pdf_upload_fails\<lparr>unlink_error :=
       (\<lambda>p. if p = ''/app/public/data/uploads/c1'' then Some eperm_error else None)\<rparr>"

definition env_create_rejects :: "js_error \<Rightarrow> env" where
  "env_create_rejects e = demo_env\<lparr>create_result := (\<lambda>doc. Inl e)\<rparr>"

text \<open>More requests and behaviours: the same request from another caller, the request
  with a document that is not a PDF, an object store that refuses to delete raw objects,
  and a file system that refuses every deletion.\<close>

definition demo_request_other_caller :: request where
  "demo_request_other_caller = demo_request\<lparr>userId := ''u2''\<rparr>"

definition demo_request_text_file :: request where
  "demo_request_text_file =
     demo_request\<lparr>files :=
       Some \<lparr>files_coverImage = Some [demo_cover],
             files_file = Some [demo_pdf\<lparr>mimetype := ''text/plain''\<rparr>]\<rparr>\<rparr>"

definition env_raw_destroy_fails :: env where
  "env_raw_destroy_fails =
     demo_env\<lparr>cloudinary_destroy :=
       (\<lambda>pid rt. if rt = Some ''raw'' then Some timeout_error else None)\<rparr>"

definition env_unlink_refused :: env where
  "env_unlink_refused = demo_env\<lparr>unlink_error := (\<lambda>p. Some eperm_error)\<rparr>"

section \<open>Properties\<close>

subsection \<open>The log and the state\<close>

lemma fs_log_event [simp]: "fs (log_event e w) = fs w"
  by (simp add: log_event_def)

lemma catalog_log_event [simp]: "catalog (log_event e w) = catalog w"
  by (simp add: log_event_def)

lemma trace_log_event [simp]: "trace (log_event e w) = trace w @ [e]"
  by (simp add: log_event_def)

lemma js_falsy_iff: "js_falsy v \<longleftrightarrow> v = None \<or> v = Some []"
  by (cases v) (simp_all add: js_falsy_def)

lemma request_file_None:
  "request_file field req = None \<longleftrightarrow>
     files req = None \<or> (\<exists>fls. files req = Some fls \<and> (field fls = None \<or> field fls = Some []))"
  by (auto simp: request_file_def first_file_def split: option.splits list.splits)

lemma request_file_Some:
  "request_file field req = Some f \<longleftrightarrow>
     (\<exists>fls rest. files req = Some fls \<and> field fls = Some (f # rest))"
  by (auto simp: request_file_def first_file_def split: option.splits list.splits)

subsection \<open>Facts about the concrete installation\<close>

lemma demo_request_cover: "request_file files_coverImage demo_request = Some demo_cover"
  by (simp add: request_file_def first_file_def demo_request_def)

lemma demo_request_pdf: "request_file files_file demo_request = Some demo_pdf"
  by (simp add: request_file_def first_file_def demo_request_def)

lemma demo_checks_pass:
  "path_resolve en = demo_resolve \<Longrightarrow>
   first_failure (createBook_checks en demo_request demo_world) = None"
  by (simp add: createBook_checks_def demo_request_cover demo_request_pdf Let_def
      createBook_path_def demo_resolve_def startsWith_def)
     (simp add: demo_request_def demo_cover_def demo_pdf_def demo_world_def)

subsection \<open>createBook, stage by stage\<close>

lemma createBook_fields_missing:
  "js_falsy (body_title req) \<or> js_falsy (body_genre req) \<or> js_falsy (body_description req) \<Longrightarrow>
   createBook en req w = (Next 400 ''Title, genre, and description are required'', w)"
  by (simp add: createBook_def)

lemma createBook_cover_missing:
  assumes "\<not> js_falsy (body_title req)" "\<not> js_falsy (body_genre req)"
    "\<not> js_falsy (body_description req)" "request_file files_coverImage req = None"
  shows "createBook en req w = (Next 400 ''Cover image is required'', w)"
  using assms by (auto simp: createBook_def request_file_None)

lemma createBook_file_missing:
  assumes "\<not> js_falsy (body_title req)" "\<not> js_falsy (body_genre req)"
    "\<not> js_falsy (body_description req)" "request_file files_coverImage req = Some c"
    "request_file files_file req = None"
  shows "createBook en req w = (Next 400 ''Book file is required'', w)"
  using assms by (auto simp: createBook_def request_file_None request_file_Some)

lemma createBook_present:
  assumes "\<not> js_falsy (body_title req)" "\<not> js_falsy (body_genre req)"
    "\<not> js_falsy (body_description req)" "request_file files_coverImage req = Some c"
    "request_file files_file req = Some d"
  shows "createBook en req w = createBook_files en req c d w"
  using assms by (auto simp: createBook_def request_file_Some)

lemma createBook_files_not_image:
  "\<not> startsWith (mimetype c) ''image/'' \<Longrightarrow>
   createBook_files en req c d w = (Next 400 ''Cover image must be an image file'', w)"
  by (simp add: createBook_files_def)

lemma createBook_files_not_pdf:
  "startsWith (mimetype c) ''image/'' \<Longrightarrow> mimetype d \<noteq> ''application/pdf'' \<Longrightarrow>
   createBook_files en req c d w = (Next 400 ''Book file must be a PDF'', w)"
  by (simp add: createBook_files_def)

lemma createBook_files_cover_absent:
  "startsWith (mimetype c) ''image/'' \<Longrightarrow> mimetype d = ''application/pdf'' \<Longrightarrow>
   createBook_path en (filename c) \<notin> fs w \<Longrightarrow>
   createBook_files en req c d w =
     (Next 400 ''Cover image file not found on server'',
      log_event (EvExistsSync (createBook_path en (filename c))) w)"
  by (simp add: createBook_files_def existsSync_def Let_def)

lemma createBook_files_file_absent:
  "startsWith (mimetype c) ''image/'' \<Longrightarrow> mimetype d = ''application/pdf'' \<Longrightarrow>
   createBook_path en (filename c) \<in> fs w \<Longrightarrow>
   createBook_path en (filename d) \<notin> fs w \<Longrightarrow>
   createBook_files en req c d w =
     (Next 400 ''Book file not found on server'',
      log_event (EvExistsSync (createBook_path en (filename d)))
        (log_event (EvExistsSync (createBook_path en (filename c))) w))"
  by (simp add: createBook_files_def existsSync_def Let_def)

lemma createBook_files_valid:
  "startsWith (mimetype c) ''image/'' \<Longrightarrow> mimetype d = ''application/pdf'' \<Longrightarrow>
   createBook_path en (filename c) \<in> fs w \<Longrightarrow>
   createBook_path en (filename d) \<in> fs w \<Longrightarrow>
   createBook_files en req c d w =
     (case createBook_try en req (filename c) (createBook_path en (filename c))
             (last (js_split CHR ''/'' (mimetype c))) (filename d)
             (createBook_path en (filename d))
             (log_event (EvExistsSync (createBook_path en (filename d)))
               (log_event (EvExistsSync (createBook_path en (filename c))) w)) of
        (Inr out, w3) \<Rightarrow> (out, w3)
      | (Inl err, w3) \<Rightarrow>
          (createBook_error err,
           createBook_cleanup_on_error en (createBook_path en (filename c))
             (createBook_path en (filename d)) w3))"
  by (simp add: createBook_files_def existsSync_def Let_def)

lemma createBook_failure:
  assumes "first_failure (createBook_checks en req w) = Some m"
  shows "fst (createBook en req w) = Next 400 m \<and>
     upload_calls (snd (createBook en req w)) = upload_calls w \<and>
     catalog (snd (createBook en req w)) = catalog w \<and>
     fs (snd (createBook en req w)) = fs w \<and>
     distinct (map snd (createBook_checks en req w))"
proof (cases "js_falsy (body_title req) \<or> js_falsy (body_genre req) \<or> js_falsy (body_description req)")
  case True
  then have "m = ''Title, genre, and description are required''"
    using assms by (auto simp: createBook_checks_def Let_def js_falsy_iff)
  then show ?thesis using createBook_fields_missing [OF True]
    by (simp add: createBook_checks_def Let_def)
next
  case fields: False
  show ?thesis
  proof (cases "request_file files_coverImage req")
    case None
    then have "m = ''Cover image is required''"
      using assms fields by (auto simp: createBook_checks_def Let_def js_falsy_iff)
    then show ?thesis using createBook_cover_missing [of req en w] fields None
      by (simp add: createBook_checks_def Let_def)
  next
    case c: (Some c)
    show ?thesis
    proof (cases "request_file files_file req")
      case None
      then have "m = ''Book file is required''"
        using assms fields c by (auto simp: createBook_checks_def Let_def js_falsy_iff)
      then show ?thesis using createBook_file_missing [of req c en w] fields c None
        by (simp add: createBook_checks_def Let_def)
    next
      case d: (Some d)
      have cb: "createBook en req w = createBook_files en req c d w"
        using createBook_present [of req c d en w] fields c d by simp
      have dist: "distinct (map snd (createBook_checks en req w))"
        by (simp add: createBook_checks_def Let_def)
      have ff: "first_failure
         [(startsWith (mimetype c) ''image/'', ''Cover image must be an image file''),
          (mimetype d = ''application/pdf'', ''Book file must be a PDF''),
          (createBook_path en (filename c) \<in> fs w, ''Cover image file not found on server''),
          (createBook_path en (filename d) \<in> fs w, ''Book file not found on server'')] = Some m"
        using assms fields c d by (simp add: createBook_checks_def Let_def js_falsy_iff)
      show ?thesis
      proof (cases "startsWith (mimetype c) ''image/''")
        case False
        then show ?thesis using ff cb dist createBook_files_not_image [OF False]
          by simp
      next
        case img: True
        show ?thesis
        proof (cases "mimetype d = ''application/pdf''")
          case False
          then show ?thesis using ff cb dist img createBook_files_not_pdf [OF img False]
            by simp
        next
          case pdf: True
          show ?thesis
          proof (cases "createBook_path en (filename c) \<in> fs w")
            case False
            then show ?thesis
              using ff cb dist img pdf createBook_files_cover_absent [OF img pdf False]
              by (simp add: upload_calls_def)
          next
            case pc: True
            show ?thesis
            proof (cases "createBook_path en (filename d) \<in> fs w")
              case False
              then show ?thesis
                using ff cb dist img pdf pc createBook_files_file_absent [OF img pdf pc False]
                by (simp add: upload_calls_def)
            next
              case True
              then show ?thesis using ff img pdf pc by simp
            qed
          qed
        qed
      qed
    qed
  qed
qed

subsection \<open>The order of the validations\<close>

text \<open>
  Claim C1. The preconditions of \<^verbatim>\<open>createBook\<close> are checked in the order of the
  specification and the first one that fails decides the answer: the handler answers with
  a client error (400) that carries the message of that check, the messages of the seven
  checks differ from each other, and the failing request leaves the number of upload calls,
  the catalog and the local files as they were.
\<close>

theorem createBook_first_failure_wins:
  assumes "first_failure (createBook_checks en req w) = Some m"
  shows "fst (createBook en req w) = Next 400 m \<and>
     upload_calls (snd (createBook en req w)) = upload_calls w \<and>
     catalog (snd (createBook en req w)) = catalog w \<and>
     fs (snd (createBook en req w)) = fs w \<and>
     distinct (map snd (createBook_checks en req w))"
  using assms by (rule createBook_failure)

theorem createBook_first_failure_wins_witness:
  "first_failure (createBook_checks demo_env demo_request_text_cover demo_world) =
     Some ''Cover image must be an image file'' \<and>
   fst (createBook demo_env demo_request_text_cover demo_world) =
     Next 400 ''Cover image must be an image file'' \<and>
   upload_calls (snd (createBook demo_env demo_request_text_cover demo_world)) = 0"
proof -
  have failing: "first_failure (createBook_checks demo_env demo_request_text_cover demo_world) =
      Some ''Cover image must be an image file''"
    by (simp add: createBook_checks_def request_file_def first_file_def
        demo_request_text_cover_def demo_request_def demo_cover_def demo_pdf_def startsWith_def)
  show ?thesis
    using failing createBook_first_failure_wins [OF failing]
    by (simp add: upload_calls_def demo_world_def)
qed

subsection \<open>createBook: the errors and the clean-up\<close>

lemma createBook_checks_pass:
  assumes "first_failure (createBook_checks en req w) = None"
    and "request_file files_coverImage req = Some c"
    and "request_file files_file req = Some d"
  shows "createBook en req w =
     (case createBook_try en req (filename c) (createBook_path en (filename c))
             (last (js_split CHR ''/'' (mimetype c))) (filename d)
             (createBook_path en (filename d))
             (log_event (EvExistsSync (createBook_path en (filename d)))
               (log_event (EvExistsSync (createBook_path en (filename c))) w)) of
        (Inr out, w3) \<Rightarrow> (out, w3)
      | (Inl err, w3) \<Rightarrow>
          (createBook_error err,
           createBook_cleanup_on_error en (createBook_path en (filename c))
             (createBook_path en (filename d)) w3))"
    and "createBook_path en (filename c) \<in> fs w"
    and "createBook_path en (filename d) \<in> fs w"
proof -
  have ok: "\<not> js_falsy (body_title req)" "\<not> js_falsy (body_genre req)"
      "\<not> js_falsy (body_description req)"
      "startsWith (mimetype c) ''image/''" "mimetype d = ''application/pdf''"
      "createBook_path en (filename c) \<in> fs w" "createBook_path en (filename d) \<in> fs w"
    using assms by (simp_all add: createBook_checks_def Let_def js_falsy_iff split: if_splits)
  show "createBook_path en (filename c) \<in> fs w" "createBook_path en (filename d) \<in> fs w"
    using ok by simp_all
  show "createBook en req w =
     (case createBook_try en req (filename c) (createBook_path en (filename c))
             (last (js_split CHR ''/'' (mimetype c))) (filename d)
             (createBook_path en (filename d))
             (log_event (EvExistsSync (createBook_path en (filename d)))
               (log_event (EvExistsSync (createBook_path en (filename c))) w)) of
        (Inr out, w3) \<Rightarrow> (out, w3)
      | (Inl err, w3) \<Rightarrow>
          (createBook_error err,
           createBook_cleanup_on_error en (createBook_path en (filename c))
             (createBook_path en (filename d)) w3))"
    using createBook_present [OF ok(1-3) assms(2,3)] createBook_files_valid [OF ok(4-7)]
    by simp
qed

lemma createBook_try_thrown:
  assumes "createBook_thrown en req c d = Some err"
  shows "\<exists>evs. createBook_try en req (filename c) (createBook_path en (filename c))
             (last (js_split CHR ''/'' (mimetype c))) (filename d)
             (createBook_path en (filename d)) w = (Inl err, w\<lparr>trace := trace w @ evs\<rparr>)"
proof (cases "cloudinary_upload en (createBook_path en (filename c))
             (cover_opts (filename c) (last (js_split CHR ''/'' (mimetype c))))")
  case (Inl e)
  then have "err = e" using assms by (simp add: createBook_thrown_def)
  then show ?thesis using Inl
    by (intro exI [of _ "[EvUpload (createBook_path en (filename c))
             (cover_opts (filename c) (last (js_split CHR ''/'' (mimetype c))))]"])
       (simp add: createBook_try_def upload_def log_event_def)
next
  case u1: (Inr url1)
  show ?thesis
  proof (cases "cloudinary_upload en (createBook_path en (filename d)) (pdf_opts (filename d))")
    case (Inl e)
    then have "err = e" using assms u1 by (simp add: createBook_thrown_def)
    then show ?thesis using u1 Inl
      by (intro exI [of _ "[EvUpload (createBook_path en (filename c))
             (cover_opts (filename c) (last (js_split CHR ''/'' (mimetype c)))),
             EvUpload (createBook_path en (filename d)) (pdf_opts (filename d))]"])
         (simp add: createBook_try_def upload_def log_event_def)
  next
    case u2: (Inr url2)
    show ?thesis
    proof (cases "create_result en (createBook_doc req url1 url2)")
      case (Inl e)
      then have "err = e" using assms u1 u2 by (simp add: createBook_thrown_def)
      then show ?thesis using u1 u2 Inl
        by (intro exI [of _ "[EvUpload (createBook_path en (filename c))
             (cover_opts (filename c) (last (js_split CHR ''/'' (mimetype c)))),
             EvUpload (createBook_path en (filename d)) (pdf_opts (filename d)),
             EvCreate (createBook_doc req url1 url2)]"])
           (simp add: createBook_try_def upload_def bookModel_create_def log_event_def)
    next
      case (Inr i)
      then show ?thesis using assms u1 u2 by (simp add: createBook_thrown_def)
    qed
  qed
qed

lemma cleanup_on_error_catalog:
  "catalog (createBook_cleanup_on_error en pc pd w) = catalog w"
  by (simp add: createBook_cleanup_on_error_def existsSync_def unlink_def Let_def split: option.splits prod.splits sum.splits)

lemma cleanup_on_error_fs:
  assumes "pc \<in> fs w" "pd \<in> fs w"
  shows "fs (createBook_cleanup_on_error en pc pd w) =
     (if unlink_error en pc \<noteq> None then fs w
      else if unlink_error en pd = None then fs w - {pc, pd}
      else fs w - {pc})"
  using assms
  by (auto simp add: createBook_cleanup_on_error_def existsSync_def unlink_def Let_def split: option.splits)

lemma cleanup_on_error_trace:
  assumes "pc \<in> fs w" "pd \<in> fs w"
  shows "trace (createBook_cleanup_on_error en pc pd w) =
     trace w @ [EvExistsSync pc, EvUnlink pc] @ 
     (if unlink_error en pc = None
      then EvExistsSync pd # (if pd = pc then [] else [EvUnlink pd])
      else [])"
  using assms
  by (auto simp add: createBook_cleanup_on_error_def existsSync_def unlink_def Let_def split: option.splits)


lemma createBook_error_is_Next:
  "\<exists>status msg. createBook_error err = Next status msg"
  by (simp add: createBook_error_def)

text \<open>
  Claim C2, as amended. When a remote upload or the creation of the record throws,
  \<^verbatim>\<open>createBook\<close> answers with an error, the catalog is as it was, and before that the
  handler cleans up: it checks that the cover file exists and deletes it, and then, unless
  that deletion threw, it checks that the document file exists and deletes it. When the
  file system refuses neither deletion, both files are gone; when it refuses the first, the
  second is not attempted. The case of the claim (the cover upload succeeds, the document
  upload throws) is the second of the three that \<open>createBook_thrown\<close> covers.
\<close>

theorem createBook_cleanup_after_error:
  assumes "first_failure (createBook_checks en req w) = None"
    and "request_file files_coverImage req = Some c"
    and "request_file files_file req = Some d"
    and "createBook_thrown en req c d = Some err"
  shows "let pc = createBook_path en (filename c);
             pd = createBook_path en (filename d);
             (out, w') = createBook en req w
         in (\<exists>status msg. out = Next status msg) \<and>
            catalog w' = catalog w \<and>
            (\<exists>evs. trace w' = trace w @ evs @ [EvExistsSync pc, EvUnlink pc] @
               (if unlink_error en pc = None
                then EvExistsSync pd # (if pd = pc then [] else [EvUnlink pd])
                else [])) \<and>
            fs w' =
              (if unlink_error en pc \<noteq> None then fs w
               else if unlink_error en pd = None then fs w - {pc, pd}
               else fs w - {pc})"
proof -
  let ?pc = "createBook_path en (filename c)"
  let ?pd = "createBook_path en (filename d)"
  let ?w2 = "log_event (EvExistsSync ?pd) (log_event (EvExistsSync ?pc) w)"
  note pass = createBook_checks_pass [OF assms(1-3)]
  obtain evs where tr:
    "createBook_try en req (filename c) ?pc (last (js_split CHR ''/'' (mimetype c)))
       (filename d) ?pd ?w2 = (Inl err, ?w2\<lparr>trace := trace ?w2 @ evs\<rparr>)"
    using createBook_try_thrown [OF assms(4)] by blast
  let ?w3 = "?w2\<lparr>trace := trace ?w2 @ evs\<rparr>"
  have run: "createBook en req w =
      (createBook_error err, createBook_cleanup_on_error en ?pc ?pd ?w3)"
    using pass(1) tr by simp
  have in3: "?pc \<in> fs ?w3" "?pd \<in> fs ?w3"
    using pass(2,3) by simp_all
  have "catalog (createBook_cleanup_on_error en ?pc ?pd ?w3) = catalog w"
    by (simp add: cleanup_on_error_catalog)
  moreover have "fs (createBook_cleanup_on_error en ?pc ?pd ?w3) =
      (if unlink_error en ?pc \<noteq> None then fs w
       else if unlink_error en ?pd = None then fs w - {?pc, ?pd}
       else fs w - {?pc})"
    using cleanup_on_error_fs [OF in3, of en] by simp
  moreover have "trace (createBook_cleanup_on_error en ?pc ?pd ?w3) =
      trace w @ ([EvExistsSync ?pc, EvExistsSync ?pd] @ evs) @ [EvExistsSync ?pc, EvUnlink ?pc] @
        (if unlink_error en ?pc = None
         then EvExistsSync ?pd # (if ?pd = ?pc then [] else [EvUnlink ?pd])
         else [])"
    using cleanup_on_error_trace [OF in3, of en] by simp
  ultimately show ?thesis
    using run createBook_error_is_Next [of err] by (simp add: Let_def)
qed

lemmas handler_defs =
  createBook_def createBook_files_def createBook_try_def createBook_cleanup_def
  createBook_cleanup_on_error_def createBook_error_def createBook_doc_def createBook_path_def
  cover_opts_def pdf_opts_def
  existsSync_def unlink_def upload_def destroy_def bookModel_create_def bookModel_findOne_def
  bookModel_findOneAndUpdate_def bookModel_deleteOne_def log_event_def enoent_def
  startsWith_def js_falsy_def js_str_def js_at_def js_or_def Let_def

lemmas demo_defs =
  demo_env_def demo_resolve_def demo_url_def demo_request_def demo_cover_def demo_pdf_def
  demo_world_def demo_book_def demo_library_def

lemma run_pdf_upload_fails:
  "createBook env_pdf_upload_fails demo_request demo_world =
     (Next 500 ''Error while uploading the files: Request Timeout'',
      \<lparr>fs = {}, catalog = (\<lambda>i. None),
       trace = [EvExistsSync ''/app/public/data/uploads/c1'',
                EvExistsSync ''/app/public/data/uploads/b1'',
                EvUpload ''/app/public/data/uploads/c1'' (cover_opts ''c1'' ''jpeg''),
                EvUpload ''/app/public/data/uploads/b1'' (pdf_opts ''b1''),
                EvExistsSync ''/app/public/data/uploads/c1'',
                EvUnlink ''/app/public/data/uploads/c1'',
                EvExistsSync ''/app/public/data/uploads/b1'',
                EvUnlink ''/app/public/data/uploads/b1'']\<rparr>)"
  by (simp add: handler_defs demo_defs env_pdf_upload_fails_def timeout_error_def)

theorem createBook_cleanup_after_error_witness:
  "first_failure (createBook_checks env_pdf_upload_fails demo_request demo_world) = None \<and>
   request_file files_coverImage demo_request = Some demo_cover \<and>
   request_file files_file demo_request = Some demo_pdf \<and>
   createBook_thrown env_pdf_upload_fails demo_request demo_cover demo_pdf = Some timeout_error \<and>
   fst (createBook env_pdf_upload_fails demo_request demo_world) =
     Next 500 ''Error while uploading the files: Request Timeout'' \<and>
   catalog (snd (createBook env_pdf_upload_fails demo_request demo_world)) = catalog demo_world \<and>
   fs (snd (createBook env_pdf_upload_fails demo_request demo_world)) = {}"
proof -
  have pass: "first_failure (createBook_checks env_pdf_upload_fails demo_request demo_world) = None"
    by (rule demo_checks_pass) (simp add: env_pdf_upload_fails_def demo_env_def)
  have thrown: "createBook_thrown env_pdf_upload_fails demo_request demo_cover demo_pdf =
      Some timeout_error"
    by (simp add: createBook_thrown_def env_pdf_upload_fails_def demo_env_def pdf_opts_def
        cover_opts_def)
  show ?thesis
    using pass thrown demo_request_cover demo_request_pdf
      createBook_cleanup_after_error [OF pass demo_request_cover demo_request_pdf thrown]
    by (simp add: run_pdf_upload_fails) (simp_all add: demo_world_def)
qed

text \<open>
  The claim as it stands says that the two deletions are performed independently. They
  share one \<^verbatim>\<open>try\<close>: here the document upload times out, the file system refuses to
  delete the cover file, and the document file, which could have been deleted, stays on
  the disk without an attempt to delete it.
\<close>

theorem createBook_cleanup_not_independent:
  "createBook_thrown env_cover_locked demo_request demo_cover demo_pdf = Some timeout_error \<and>
   unlink_error env_cover_locked ''/app/public/data/uploads/b1'' = None \<and>
   fst (createBook env_cover_locked demo_request demo_world) =
     Next 500 ''Error while uploading the files: Request Timeout'' \<and>
   ''/app/public/data/uploads/b1'' \<in> fs (snd (createBook env_cover_locked demo_request demo_world)) \<and>
   EvUnlink ''/app/public/data/uploads/b1''
     \<notin> set (trace (snd (createBook env_cover_locked demo_request demo_world)))"
  by (simp add: handler_defs demo_defs env_cover_locked_def env_pdf_upload_fails_def
      timeout_error_def eperm_error_def createBook_thrown_def)

lemma createBook_cleanup_catalog:
  "catalog (createBook_cleanup en pc pd w) = catalog w"
  by (simp add: createBook_cleanup_def unlink_def Let_def split: option.splits)

lemma createBook_cleanup_fs:
  assumes "pc \<in> fs w" "pd \<in> fs w"
  shows "fs (createBook_cleanup en pc pd w) =
     (if unlink_error en pc \<noteq> None then fs w
      else if unlink_error en pd = None then fs w - {pc, pd}
      else fs w - {pc})"
  using assms by (auto simp add: createBook_cleanup_def unlink_def Let_def split: option.splits)

lemma createBook_cleanup_trace:
  assumes "pc \<in> fs w"
  shows "trace (createBook_cleanup en pc pd w) =
     trace w @ EvUnlink pc # (if unlink_error en pc = None then [EvUnlink pd] else [])"
  using assms by (auto simp add: createBook_cleanup_def unlink_def Let_def split: option.splits)

subsection \<open>createBook: the order of the effects\<close>

text \<open>
  Claim C7. When the preconditions hold, both uploads succeed and the record is created,
  \<^verbatim>\<open>createBook\<close> answers 201 with the identifier of the new record, whatever the
  deletions of the local files do. The calls are made in this order: the existence check
  of the cover file, that of the document file, the upload of the cover, the upload of the
  document, the creation of the record with both URLs and the caller as its owner, the
  deletion of the cover file and, unless that threw, the deletion of the document file.
  When the file system refuses neither deletion, both local files are gone.
\<close>

theorem createBook_success_order:
  assumes "first_failure (createBook_checks en req w) = None"
    and "request_file files_coverImage req = Some c"
    and "request_file files_file req = Some d"
    and "cloudinary_upload en (createBook_path en (filename c))
           (cover_opts (filename c) (last (js_split CHR ''/'' (mimetype c)))) = Inr coverUrl"
    and "cloudinary_upload en (createBook_path en (filename d)) (pdf_opts (filename d)) =
           Inr fileUrl"
    and "create_result en (createBook_doc req coverUrl fileUrl) = Inr newId"
  shows "let pc = createBook_path en (filename c);
             pd = createBook_path en (filename d);
             doc = createBook_doc req coverUrl fileUrl;
             (out, w') = createBook en req w
         in out = Res 201 (IdBody newId) \<and>
            trace w' = trace w @
              [EvExistsSync pc, EvExistsSync pd,
               EvUpload pc (cover_opts (filename c) (last (js_split CHR ''/'' (mimetype c)))),
               EvUpload pd (pdf_opts (filename d)),
               EvCreate doc,
               EvUnlink pc] @ (if unlink_error en pc = None then [EvUnlink pd] else []) \<and>
            catalog w' = (catalog w)(newId \<mapsto> doc) \<and>
            book_author doc = userId req \<and> book_coverImage doc = coverUrl \<and>
            book_file doc = fileUrl \<and>
            fs w' =
              (if unlink_error en pc \<noteq> None then fs w
               else if unlink_error en pd = None then fs w - {pc, pd}
               else fs w - {pc})"
proof -
  let ?pc = "createBook_path en (filename c)"
  let ?pd = "createBook_path en (filename d)"
  let ?co = "cover_opts (filename c) (last (js_split CHR ''/'' (mimetype c)))"
  let ?doc = "createBook_doc req coverUrl fileUrl"
  let ?w2 = "log_event (EvExistsSync ?pd) (log_event (EvExistsSync ?pc) w)"
  let ?w3 = "(log_event (EvCreate ?doc) (log_event (EvUpload ?pd (pdf_opts (filename d)))
               (log_event (EvUpload ?pc ?co) ?w2)))\<lparr>catalog := (catalog w)(newId \<mapsto> ?doc)\<rparr>"
  note pass = createBook_checks_pass [OF assms(1-3)]
  have tr: "createBook_try en req (filename c) ?pc (last (js_split CHR ''/'' (mimetype c)))
       (filename d) ?pd ?w2 = (Inr (Res 201 (IdBody newId)), createBook_cleanup en ?pc ?pd ?w3)"
    using assms(4-6) by (simp add: createBook_try_def upload_def bookModel_create_def Let_def)
  have run: "createBook en req w = (Res 201 (IdBody newId), createBook_cleanup en ?pc ?pd ?w3)"
    using pass(1) tr by simp
  have in3: "?pc \<in> fs ?w3" "?pd \<in> fs ?w3"
    using pass(2,3) by simp_all
  have "catalog (createBook_cleanup en ?pc ?pd ?w3) = (catalog w)(newId \<mapsto> ?doc)"
    by (simp add: createBook_cleanup_catalog)
  moreover have "fs (createBook_cleanup en ?pc ?pd ?w3) =
      (if unlink_error en ?pc \<noteq> None then fs w
       else if unlink_error en ?pd = None then fs w - {?pc, ?pd}
       else fs w - {?pc})"
    using createBook_cleanup_fs [OF in3, of en] by simp
  moreover have "trace (createBook_cleanup en ?pc ?pd ?w3) =
      trace w @ [EvExistsSync ?pc, EvExistsSync ?pd, EvUpload ?pc ?co,
        EvUpload ?pd (pdf_opts (filename d)), EvCreate ?doc, EvUnlink ?pc] @
        (if unlink_error en ?pc = None then [EvUnlink ?pd] else [])"
    using createBook_cleanup_trace [OF in3(1), of en ?pd] by simp
  moreover have "book_author ?doc = userId req \<and> book_coverImage ?doc = coverUrl \<and>
      book_file ?doc = fileUrl"
    by (simp add: createBook_doc_def)
  ultimately show ?thesis
    using run by (simp add: Let_def)
qed

lemma run_demo:
  "createBook demo_env demo_request demo_world =
     (Res 201 (IdBody ''b42''),
      \<lparr>fs = {}, catalog = (\<lambda>i. None)(''b42'' \<mapsto> demo_book),
       trace = [EvExistsSync ''/app/public/data/uploads/c1'',
                EvExistsSync ''/app/public/data/uploads/b1'',
                EvUpload ''/app/public/data/uploads/c1'' (cover_opts ''c1'' ''jpeg''),
                EvUpload ''/app/public/data/uploads/b1'' (pdf_opts ''b1''),
                EvCreate demo_book,
                EvUnlink ''/app/public/data/uploads/c1'',
                EvUnlink ''/app/public/data/uploads/b1'']\<rparr>)"
  by (simp add: handler_defs demo_defs)

theorem createBook_success_order_witness:
  "first_failure (createBook_checks demo_env demo_request demo_world) = None \<and>
   request_file files_coverImage demo_request = Some demo_cover \<and>
   request_file files_file demo_request = Some demo_pdf \<and>
   cloudinary_upload demo_env (createBook_path demo_env (filename demo_cover))
     (cover_opts (filename demo_cover) (last (js_split CHR ''/'' (mimetype demo_cover)))) =
     Inr (book_coverImage demo_book) \<and>
   cloudinary_upload demo_env (createBook_path demo_env (filename demo_pdf))
     (pdf_opts (filename demo_pdf)) = Inr (book_file demo_book) \<and>
   create_result demo_env
     (createBook_doc demo_request (book_coverImage demo_book) (book_file demo_book)) =
     Inr ''b42'' \<and>
   fst (createBook demo_env demo_request demo_world) = Res 201 (IdBody ''b42'') \<and>
   catalog (snd (createBook demo_env demo_request demo_world)) ''b42'' = Some demo_book \<and>
   fs (snd (createBook demo_env demo_request demo_world)) = {}"
proof -
  have pass: "first_failure (createBook_checks demo_env demo_request demo_world) = None"
    by (rule demo_checks_pass) (simp add: demo_env_def)
  have u1: "cloudinary_upload demo_env (createBook_path demo_env (filename demo_cover))
     (cover_opts (filename demo_cover) (last (js_split CHR ''/'' (mimetype demo_cover)))) =
     Inr (book_coverImage demo_book)"
    by (simp add: demo_defs cover_opts_def)
  have u2: "cloudinary_upload demo_env (createBook_path demo_env (filename demo_pdf))
     (pdf_opts (filename demo_pdf)) = Inr (book_file demo_book)"
    by (simp add: demo_defs pdf_opts_def)
  have cr: "create_result demo_env
     (createBook_doc demo_request (book_coverImage demo_book) (book_file demo_book)) =
     Inr ''b42''"
    by (simp add: demo_env_def)
  show ?thesis
    using pass u1 u2 cr demo_request_cover demo_request_pdf
      createBook_success_order [OF pass demo_request_cover demo_request_pdf u1 u2 cr]
    by (simp add: run_demo)
qed

lemma createBook_thrown_outcome:
  assumes "first_failure (createBook_checks en req w) = None"
    and "request_file files_coverImage req = Some c"
    and "request_file files_file req = Some d"
    and "createBook_thrown en req c d = Some err"
  shows "fst (createBook en req w) = createBook_error err"
proof -
  let ?pc = "createBook_path en (filename c)"
  let ?pd = "createBook_path en (filename d)"
  let ?w2 = "log_event (EvExistsSync ?pd) (log_event (EvExistsSync ?pc) w)"
  obtain evs where
    "createBook_try en req (filename c) ?pc (last (js_split CHR ''/'' (mimetype c)))
       (filename d) ?pd ?w2 = (Inl err, ?w2\<lparr>trace := trace ?w2 @ evs\<rparr>)"
    using createBook_try_thrown [OF assms(4)] by blast
  then show ?thesis
    using createBook_checks_pass(1) [OF assms(1-3)] by simp
qed

subsection \<open>createBook: the error that is surfaced\<close>

text \<open>
  Claim C8, as amended. Every error that an upload or the creation of the record throws
  is mapped before it is surfaced, by tests on the error object alone, made in this order:
  a message that contains \<^verbatim>\<open>cloudinary\<close> gives 500 and the upload message; otherwise the
  name \<^verbatim>\<open>ValidationError\<close> gives 400 and the validator's message; otherwise the code
  \<^verbatim>\<open>ENOENT\<close> gives 400; otherwise the answer is 500 with the message of the error.
\<close>

theorem createBook_error_mapping:
  assumes "first_failure (createBook_checks en req w) = None"
    and "request_file files_coverImage req = Some c"
    and "request_file files_file req = Some d"
    and "createBook_thrown en req c d = Some err"
  shows "fst (createBook en req w) =
     (if err_message err \<noteq> None \<and> err_message err \<noteq> Some [] \<and>
         js_includes (js_str (err_message err)) ''cloudinary''
      then Next 500 ''Error uploading files to cloud storage''
      else if err_name err = Some ''ValidationError''
      then Next 400 (''Invalid book data: '' @ js_str (err_message err))
      else if err_code err = Some ''ENOENT''
      then Next 400 ''File not found on server''
      else Next 500 (''Error while uploading the files: '' @ js_str (err_message err)))"
  using createBook_thrown_outcome [OF assms]
  by (simp add: createBook_error_def js_falsy_iff)

theorem createBook_error_mapping_witness:
  "first_failure (createBook_checks (env_create_rejects enum_error) demo_request demo_world) = None \<and>
   request_file files_coverImage demo_request = Some demo_cover \<and>
   request_file files_file demo_request = Some demo_pdf \<and>
   createBook_thrown (env_create_rejects enum_error) demo_request demo_cover demo_pdf =
     Some enum_error \<and>
   fst (createBook (env_create_rejects enum_error) demo_request demo_world) =
     Next 400 ''Invalid book data: Book validation failed: genre: SciFi is not a valid enum value''"
proof -
  have pass: "first_failure
      (createBook_checks (env_create_rejects enum_error) demo_request demo_world) = None"
    by (rule demo_checks_pass) (simp add: env_create_rejects_def demo_env_def)
  have thrown: "createBook_thrown (env_create_rejects enum_error) demo_request demo_cover
      demo_pdf = Some enum_error"
    by (simp add: createBook_thrown_def env_create_rejects_def demo_env_def)
  show ?thesis
    using pass thrown demo_request_cover demo_request_pdf
      createBook_error_mapping [OF pass demo_request_cover demo_request_pdf thrown]
    by (simp add: enum_error_def js_str_def startsWith_def)
qed

text \<open>
  The claim as it stands maps a validation failure of the catalog store to 400. The test
  on the message comes first: a validation error whose message quotes the URL of the
  cover, which contains \<^verbatim>\<open>cloudinary\<close>, is answered with 500 and the upload message.
\<close>

theorem createBook_validation_error_as_upload_failure:
  "createBook_thrown (env_create_rejects url_error) demo_request demo_cover demo_pdf =
     Some url_error \<and>
   create_result (env_create_rejects url_error) demo_book = Inl url_error \<and>
   err_name url_error = Some ''ValidationError'' \<and>
   fst (createBook (env_create_rejects url_error) demo_request demo_world) =
     Next 500 ''Error uploading files to cloud storage''"
  by (simp add: handler_defs demo_defs env_create_rejects_def url_error_def
      createBook_thrown_def)

subsection \<open>updateBook: uploads and deletions that fail\<close>

lemma events_since_append [simp]: "trace w' = trace w @ evs \<Longrightarrow> events_since w w' = evs"
  by (simp add: events_since_def)

lemma updateBook_cover_effects:
  assumes "updateBook_cover en req w = (r, w')"
  shows "catalog w' = catalog w \<and>
     (\<exists>evs. trace w' = trace w @ evs \<and> \<not> list_ex is_update evs \<and>
        (list_ex (upload_failed en) evs \<longrightarrow> r = Inl (Next 500 ''Error uploading cover image'')) \<and>
        (list_ex (unlink_refused en) evs \<longrightarrow>
           r = Inl (Next 500 ''Error uploading cover image'') \<and>
           list_ex (uploaded_not_deleted en) evs))"
  using assms
  by (auto simp: updateBook_cover_def existsSync_def upload_def unlink_def Let_def
      split: option.splits list.splits if_splits sum.splits)


lemma updateBook_file_effects:
  assumes "updateBook_file en req w = (r, w')"
  shows "catalog w' = catalog w \<and>
     (\<exists>evs. trace w' = trace w @ evs \<and> \<not> list_ex is_update evs \<and>
        (list_ex (upload_failed en) evs \<longrightarrow> r = Inl (Next 500 ''Error uploading book file'')) \<and>
        (list_ex (unlink_refused en) evs \<longrightarrow>
           r = Inl (Next 500 ''Error uploading book file'') \<and>
           list_ex (uploaded_not_deleted en) evs))"
  using assms
  by (auto simp: updateBook_file_def existsSync_def upload_def unlink_def Let_def
      split: option.splits list.splits if_splits sum.splits)

lemma updateBook_effects:
  "\<exists>evs. trace (snd (updateBook en req w)) = trace w @ evs \<and>
     (list_ex (upload_failed en) evs \<or> list_ex (unlink_refused en) evs \<longrightarrow>
        (fst (updateBook en req w) = Next 500 ''Error uploading cover image'' \<or>
         fst (updateBook en req w) = Next 500 ''Error uploading book file'') \<and>
        catalog (snd (updateBook en req w)) = catalog w \<and>
        \<not> list_ex is_update evs) \<and>
     (list_ex (unlink_refused en) evs \<longrightarrow> list_ex (uploaded_not_deleted en) evs)"
proof -
  let ?w1 = "log_event (EvFindOne (bookId req)) w"
  obtain rc wc where c: "updateBook_cover en req ?w1 = (rc, wc)" by force
  obtain rf wf where f: "updateBook_file en req wc = (rf, wf)" by force
  from updateBook_cover_effects [OF c] obtain evc where
    cc: "catalog wc = catalog w" "trace wc = trace w @ EvFindOne (bookId req) # evc"
      "\<not> list_ex is_update evc"
      "list_ex (upload_failed en) evc \<Longrightarrow> rc = Inl (Next 500 ''Error uploading cover image'')"
      "list_ex (unlink_refused en) evc \<Longrightarrow> rc = Inl (Next 500 ''Error uploading cover image'')"
      "list_ex (unlink_refused en) evc \<Longrightarrow> list_ex (uploaded_not_deleted en) evc"
    by auto
  from updateBook_file_effects [OF f] obtain evf where
    ff: "catalog wf = catalog w" "trace wf = trace w @ EvFindOne (bookId req) # evc @ evf"
      "\<not> list_ex is_update evf"
      "list_ex (upload_failed en) evf \<Longrightarrow> rf = Inl (Next 500 ''Error uploading book file'')"
      "list_ex (unlink_refused en) evf \<Longrightarrow> rf = Inl (Next 500 ''Error uploading book file'')"
      "list_ex (unlink_refused en) evf \<Longrightarrow> list_ex (uploaded_not_deleted en) evf"
    using cc by auto
  show ?thesis
  proof (cases "findOne_error en (bookId req)")
    case (Some e)
    then show ?thesis
      by (intro exI [of _ "[EvFindOne (bookId req)]"])
         (simp add: updateBook_def updateBook_try_def bookModel_findOne_def)
  next
    case ok: None
    show ?thesis
    proof (cases "catalog w (bookId req)")
      case None
      then show ?thesis using ok
        by (intro exI [of _ "[EvFindOne (bookId req)]"])
           (simp add: updateBook_def updateBook_try_def bookModel_findOne_def)
    next
      case (Some book)
      show ?thesis
      proof (cases "book_author book = userId req")
        case False
        then show ?thesis using ok Some
          by (intro exI [of _ "[EvFindOne (bookId req)]"])
             (simp add: updateBook_def updateBook_try_def bookModel_findOne_def)
      next
        case own: True
        show ?thesis
        proof (cases rc)
          case (Inl out)
          then have "updateBook en req w = (out, wc)"
            using ok Some own c
            by (simp add: updateBook_def updateBook_try_def bookModel_findOne_def log_event_def)
          then show ?thesis using cc Inl
            by (intro exI [of _ "EvFindOne (bookId req) # evc"])
               auto
        next
          case rcu: (Inr coverUrl)
          show ?thesis
          proof (cases rf)
            case (Inl out)
            then have "updateBook en req w = (out, wf)"
              using ok Some own c f rcu
              by (simp add: updateBook_def updateBook_try_def bookModel_findOne_def log_event_def)
            then show ?thesis using cc ff Inl rcu
              by (intro exI [of _ "EvFindOne (bookId req) # evc @ evf"])
                 auto
          next
            case rfu: (Inr fileUrl)
            have "\<exists>u. trace (snd (updateBook en req w)) =
                trace wf @ [EvFindOneAndUpdate (bookId req) u]"
              using ok Some own c f rcu rfu
              by (simp add: updateBook_def updateBook_try_def bookModel_findOne_def
                  bookModel_findOneAndUpdate_def log_event_def Let_def split: option.splits)
            then obtain u where
              "trace (snd (updateBook en req w)) = trace wf @ [EvFindOneAndUpdate (bookId req) u]" ..
            then show ?thesis using cc ff rcu rfu
              by (intro exI [of _ "EvFindOne (bookId req) # evc @ evf @
                    [EvFindOneAndUpdate (bookId req) u]"]) auto
          qed
        qed
      qed
    qed
  qed
qed

lemmas update_defs =
  updateBook_def updateBook_try_def updateBook_cover_def updateBook_file_def
  updateBook_path_def deleteBook_def deleteBook_try_def deleteBook_remote_def
  request_file_def first_file_def events_since_def

lemma demo_cover_id:
  "coverImagePublicId ''https://res.cloudinary.com/demo/upload/v1/book-covers/c1.jpeg'' =
     ''book-covers/c1''"
  by (simp add: coverImagePublicId_def js_at_def js_str_def Let_def)

lemma demo_file_id:
  "bookFilePublicId ''https://res.cloudinary.com/demo/upload/v1/book-pdfs/b1.pdf'' =
     ''book-pdfs/b1.pdf''"
  by (simp add: bookFilePublicId_def js_at_def js_str_def Let_def)

text \<open>
  Claim C4. Whenever an upload call made by \<^verbatim>\<open>updateBook\<close> throws, for the cover or for
  the document, the handler answers with a server error (500) of the upload that failed,
  the catalog update is not called, and the catalog is as it was before the request.
\<close>

theorem updateBook_upload_failure_aborts:
  assumes "list_ex (upload_failed en) (events_since w (snd (updateBook en req w)))"
  shows "(fst (updateBook en req w) = Next 500 ''Error uploading cover image'' \<or>
          fst (updateBook en req w) = Next 500 ''Error uploading book file'') \<and>
         catalog (snd (updateBook en req w)) = catalog w \<and>
         \<not> list_ex is_update (events_since w (snd (updateBook en req w)))"
proof -
  obtain evs where "trace (snd (updateBook en req w)) = trace w @ evs"
    and "list_ex (upload_failed en) evs \<or> list_ex (unlink_refused en) evs \<longrightarrow>
        (fst (updateBook en req w) = Next 500 ''Error uploading cover image'' \<or>
         fst (updateBook en req w) = Next 500 ''Error uploading book file'') \<and>
        catalog (snd (updateBook en req w)) = catalog w \<and>
        \<not> list_ex is_update evs"
    using updateBook_effects [of en req w] by blast
  then show ?thesis using assms by simp
qed

lemma run_update_pdf_upload_fails:
  "updateBook env_pdf_upload_fails demo_request demo_library =
     (Next 500 ''Error uploading book file'',
      \<lparr>fs = {''/app/public/data/uploads/b1''},
       catalog = (\<lambda>i. None)(''b42'' \<mapsto> demo_book),
       trace = [EvFindOne ''b42'',
                EvExistsSync ''/app/public/data/uploads/c1'',
                EvUpload ''/app/public/data/uploads/c1'' (cover_opts ''c1'' ''jpeg''),
                EvUnlink ''/app/public/data/uploads/c1'',
                EvExistsSync ''/app/public/data/uploads/b1'',
                EvUpload ''/app/public/data/uploads/b1'' (pdf_opts ''b1'')]\<rparr>)"
  by (simp add: update_defs handler_defs demo_defs env_pdf_upload_fails_def) 

theorem updateBook_upload_failure_aborts_witness:
  "list_ex (upload_failed env_pdf_upload_fails)
     (events_since demo_library (snd (updateBook env_pdf_upload_fails demo_request demo_library))) \<and>
   fst (updateBook env_pdf_upload_fails demo_request demo_library) =
     Next 500 ''Error uploading book file'' \<and>
   catalog (snd (updateBook env_pdf_upload_fails demo_request demo_library)) =
     catalog demo_library"
proof -
  have failed: "list_ex (upload_failed env_pdf_upload_fails)
     (events_since demo_library
        (snd (updateBook env_pdf_upload_fails demo_request demo_library)))"
    by (simp add: run_update_pdf_upload_fails events_since_def)
       (simp_all add: demo_library_def demo_world_def env_pdf_upload_fails_def demo_env_def
        pdf_opts_def)
  have out: "fst (updateBook env_pdf_upload_fails demo_request demo_library) =
      Next 500 ''Error uploading book file''"
    by (simp add: run_update_pdf_upload_fails)
  show ?thesis
    using failed out updateBook_upload_failure_aborts [OF failed] by blast
qed

text \<open>
  Claim C10. In \<^verbatim>\<open>updateBook\<close> the deletion of the local file stands in the same \<^verbatim>\<open>try\<close>
  as the upload before it. Whenever the file system refuses a deletion that the handler
  makes, the handler answers with the server error (500) of the upload, the catalog update
  is not called and the catalog is as it was, although the upload of that file had
  succeeded.
\<close>

theorem updateBook_unlink_failure_aborts:
  assumes "list_ex (unlink_refused en) (events_since w (snd (updateBook en req w)))"
  shows "(fst (updateBook en req w) = Next 500 ''Error uploading cover image'' \<or>
          fst (updateBook en req w) = Next 500 ''Error uploading book file'') \<and>
         catalog (snd (updateBook en req w)) = catalog w \<and>
         \<not> list_ex is_update (events_since w (snd (updateBook en req w))) \<and>
         list_ex (uploaded_not_deleted en) (events_since w (snd (updateBook en req w)))"
proof -
  obtain evs where "trace (snd (updateBook en req w)) = trace w @ evs"
    and "list_ex (upload_failed en) evs \<or> list_ex (unlink_refused en) evs \<longrightarrow>
        (fst (updateBook en req w) = Next 500 ''Error uploading cover image'' \<or>
         fst (updateBook en req w) = Next 500 ''Error uploading book file'') \<and>
        catalog (snd (updateBook en req w)) = catalog w \<and>
        \<not> list_ex is_update evs"
    and "list_ex (unlink_refused en) evs \<longrightarrow> list_ex (uploaded_not_deleted en) evs"
    using updateBook_effects [of en req w] by blast
  then show ?thesis using assms by simp
qed

lemma run_update_unlink_refused:
  "updateBook env_unlink_refused demo_request demo_library =
     (Next 500 ''Error uploading cover image'',
      \<lparr>fs = {''/app/public/data/uploads/c1'', ''/app/public/data/uploads/b1''},
       catalog = (\<lambda>i. None)(''b42'' \<mapsto> demo_book),
       trace = [EvFindOne ''b42'',
                EvExistsSync ''/app/public/data/uploads/c1'',
                EvUpload ''/app/public/data/uploads/c1'' (cover_opts ''c1'' ''jpeg''),
                EvUnlink ''/app/public/data/uploads/c1'']\<rparr>)"
  by (simp add: update_defs handler_defs demo_defs env_unlink_refused_def) 

theorem updateBook_unlink_failure_aborts_witness:
  "list_ex (unlink_refused env_unlink_refused)
     (events_since demo_library (snd (updateBook env_unlink_refused demo_request demo_library))) \<and>
   fst (updateBook env_unlink_refused demo_request demo_library) =
     Next 500 ''Error uploading cover image'' \<and>
   catalog (snd (updateBook env_unlink_refused demo_request demo_library)) =
     catalog demo_library \<and>
   list_ex (uploaded_not_deleted env_unlink_refused)
     (events_since demo_library (snd (updateBook env_unlink_refused demo_request demo_library)))"
proof -
  have refused: "list_ex (unlink_refused env_unlink_refused)
     (events_since demo_library (snd (updateBook env_unlink_refused demo_request demo_library)))"
    by (simp add: run_update_unlink_refused events_since_def)
       (simp_all add: demo_library_def demo_world_def env_unlink_refused_def demo_env_def)
  have out: "fst (updateBook env_unlink_refused demo_request demo_library) =
      Next 500 ''Error uploading cover image''"
    by (simp add: run_update_unlink_refused)
  show ?thesis
    using refused out updateBook_unlink_failure_aborts [OF refused] by blast
qed

subsection \<open>updateBook: the validation of the document after the upload of the cover\<close>

text \<open>
  Claim C5 says that \<^verbatim>\<open>updateBook\<close> reports a wrong content type before any call to the
  remote object store, for every combination of supplied files. The handler validates
  the document only after it has dealt with the cover: on a request with a valid cover and
  a document that is not a PDF, the cover is uploaded and its local file deleted, and then
  the request is refused with 400. \<^verbatim>\<open>createBook\<close> checks both content types before its
  first upload.
\<close>

theorem updateBook_validates_file_after_cover_upload:
  "updateBook demo_env demo_request_text_file demo_library =
     (Next 400 ''Book file must be a PDF'',
      \<lparr>fs = {''/app/public/data/uploads/b1''},
       catalog = (\<lambda>i. None)(''b42'' \<mapsto> demo_book),
       trace = [EvFindOne ''b42'',
                EvExistsSync ''/app/public/data/uploads/c1'',
                EvUpload ''/app/public/data/uploads/c1'' (cover_opts ''c1'' ''jpeg''),
                EvUnlink ''/app/public/data/uploads/c1'']\<rparr>)"
  by (simp add: update_defs handler_defs demo_defs demo_request_text_file_def) 

subsection \<open>Ownership\<close>

text \<open>
  Claim C3. When the record exists and its author is not the caller, \<^verbatim>\<open>updateBook\<close> and
  \<^verbatim>\<open>deleteBook\<close> both answer 403; the catalog and the local files are as they were, and
  the only call made is the lookup of the record: nothing is uploaded and nothing is
  deleted from the remote object store.
\<close>

theorem not_owner_forbidden:
  assumes "findOne_error en (bookId req) = None"
    and "catalog w (bookId req) = Some book"
    and "book_author book \<noteq> userId req"
  shows "fst (updateBook en req w) = Next 403 ''You can not update others book.'' \<and>
         catalog (snd (updateBook en req w)) = catalog w \<and>
         fs (snd (updateBook en req w)) = fs w \<and>
         events_since w (snd (updateBook en req w)) = [EvFindOne (bookId req)] \<and>
         fst (deleteBook en req w) = Next 403 ''You can not delete others book.'' \<and>
         catalog (snd (deleteBook en req w)) = catalog w \<and>
         fs (snd (deleteBook en req w)) = fs w \<and>
         events_since w (snd (deleteBook en req w)) = [EvFindOne (bookId req)]"
  using assms
  by (simp add: updateBook_def updateBook_try_def deleteBook_def deleteBook_try_def
      bookModel_findOne_def)

theorem not_owner_forbidden_witness:
  "findOne_error demo_env (bookId demo_request_other_caller) = None \<and>
   catalog demo_library (bookId demo_request_other_caller) = Some demo_book \<and>
   book_author demo_book \<noteq> userId demo_request_other_caller \<and>
   fst (updateBook demo_env demo_request_other_caller demo_library) =
     Next 403 ''You can not update others book.'' \<and>
   catalog (snd (updateBook demo_env demo_request_other_caller demo_library)) =
     catalog demo_library \<and>
   fst (deleteBook demo_env demo_request_other_caller demo_library) =
     Next 403 ''You can not delete others book.'' \<and>
   catalog (snd (deleteBook demo_env demo_request_other_caller demo_library)) =
     catalog demo_library"
proof -
  have found: "findOne_error demo_env (bookId demo_request_other_caller) = None"
    "catalog demo_library (bookId demo_request_other_caller) = Some demo_book"
    "book_author demo_book \<noteq> userId demo_request_other_caller"
    by (simp_all add: demo_defs demo_request_other_caller_def)
  show ?thesis
    using found not_owner_forbidden [OF found] by simp
qed

subsection \<open>deleteBook\<close>

text \<open>
  Claim C6. Once the record is found and the caller is its author, \<^verbatim>\<open>deleteBook\<close> asks
  the object store to delete the cover and, unless that threw, the document (as a raw
  object); whatever these two calls do, it then deletes the record from the catalog.
  When the catalog store performs that deletion, the answer is 204 with an empty body and
  the record is gone; only an error of the catalog store itself gives 500.
\<close>

theorem deleteBook_ignores_remote_failure:
  assumes "findOne_error en (bookId req) = None"
    and "catalog w (bookId req) = Some book"
    and "book_author book = userId req"
  shows "let coverId = coverImagePublicId (book_coverImage book);
             fileId = bookFilePublicId (book_file book);
             (out, w') = deleteBook en req w
         in events_since w w' =
              [EvFindOne (bookId req), EvDestroy coverId None] @
              (if cloudinary_destroy en coverId None = None
               then [EvDestroy fileId (Some ''raw'')] else []) @
              [EvDeleteOne (bookId req)] \<and>
            (if deleteOne_error en (bookId req) = None
             then out = Res 204 EmptyBody \<and> catalog w' = (catalog w)(bookId req := None)
             else out = Next 500 (''Error while deleting book: '' @
                          js_str (err_message (the (deleteOne_error en (bookId req))))) \<and>
                  catalog w' = catalog w)"
  using assms
  by (auto simp: deleteBook_def deleteBook_try_def deleteBook_remote_def destroy_def
      bookModel_findOne_def bookModel_deleteOne_def Let_def split: option.splits)

theorem deleteBook_ignores_remote_failure_witness:
  "findOne_error env_raw_destroy_fails (bookId demo_request) = None \<and>
   catalog demo_library (bookId demo_request) = Some demo_book \<and>
   book_author demo_book = userId demo_request \<and>
   cloudinary_destroy env_raw_destroy_fails ''book-covers/c1'' None = None \<and>
   cloudinary_destroy env_raw_destroy_fails ''book-pdfs/b1.pdf'' (Some ''raw'') =
     Some timeout_error \<and>
   fst (deleteBook env_raw_destroy_fails demo_request demo_library) = Res 204 EmptyBody \<and>
   catalog (snd (deleteBook env_raw_destroy_fails demo_request demo_library)) ''b42'' = None \<and>
   events_since demo_library (snd (deleteBook env_raw_destroy_fails demo_request demo_library)) =
     [EvFindOne ''b42'', EvDestroy ''book-covers/c1'' None,
      EvDestroy ''book-pdfs/b1.pdf'' (Some ''raw''), EvDeleteOne ''b42'']"
proof -
  have found: "findOne_error env_raw_destroy_fails (bookId demo_request) = None"
    "catalog demo_library (bookId demo_request) = Some demo_book"
    "book_author demo_book = userId demo_request"
    by (simp_all add: demo_defs env_raw_destroy_fails_def)
  have ids: "coverImagePublicId (book_coverImage demo_book) = ''book-covers/c1''"
    "bookFilePublicId (book_file demo_book) = ''book-pdfs/b1.pdf''"
    by (simp_all add: demo_book_def demo_cover_id demo_file_id)
  have env: "cloudinary_destroy env_raw_destroy_fails ''book-covers/c1'' None = None"
    "cloudinary_destroy env_raw_destroy_fails ''book-pdfs/b1.pdf'' (Some ''raw'') =
       Some timeout_error"
    "deleteOne_error env_raw_destroy_fails ''b42'' = None"
    "bookId demo_request = ''b42''"
    by (simp_all add: env_raw_destroy_fails_def demo_env_def demo_request_def)
  show ?thesis
    using found env deleteBook_ignores_remote_failure [OF found]
    by (simp add: ids Let_def split: prod.splits)
qed

subsection \<open>The public identifiers of a created record\<close>

lemma js_split_nonempty: "js_split sep s \<noteq> []"
  by (induction s) (auto split: list.splits)

lemma js_split_no_sep: "sep \<notin> set s \<Longrightarrow> js_split sep s = [s]"
  by (induction s) auto

lemma js_split_append: "js_split sep (a @ sep # b) = js_split sep a @ js_split sep b"
proof (induction a)
  case Nil
  show ?case by simp
next
  case (Cons c a)
  obtain p ps where "js_split sep a = p # ps"
    using js_split_nonempty [of sep a] by (cases "js_split sep a") auto
  then show ?case using Cons by simp
qed

lemma js_at_last: "js_at (xs @ [a, b]) (- 1) = Some b"
proof -
  have "nat (1 + int (length xs)) = Suc (length xs)" by simp
  then show ?thesis by (simp add: js_at_def nth_append)
qed

lemma js_at_last_but_one: "js_at (xs @ [a, b]) (- 2) = Some a"
  by (simp add: js_at_def nth_append)

lemma js_split_two_last:
  assumes "CHR ''/'' \<notin> set dir" "CHR ''/'' \<notin> set leaf"
  shows "js_split CHR ''/'' (pre @ ''/'' @ dir @ ''/'' @ leaf) = js_split CHR ''/'' pre @ [dir, leaf]"
  using assms by (simp add: js_split_append js_split_no_sep)

lemma coverImagePublicId_shape:
  assumes "CHR ''/'' \<notin> set dir" "CHR ''/'' \<notin> set name" "CHR ''.'' \<notin> set name"
    "CHR ''/'' \<notin> set ext" "CHR ''.'' \<notin> set ext"
  shows "coverImagePublicId (pre @ ''/'' @ dir @ ''/'' @ name @ ''.'' @ ext) = dir @ ''/'' @ name"
proof -
  have "CHR ''/'' \<notin> set (name @ ''.'' @ ext)" using assms by simp
  then have sp: "js_split CHR ''/'' (pre @ ''/'' @ dir @ ''/'' @ name @ ''.'' @ ext) =
      js_split CHR ''/'' pre @ [dir, name @ ''.'' @ ext]"
    using js_split_two_last [OF assms(1), of "name @ ''.'' @ ext" pre] by simp
  have "js_split CHR ''.'' (name @ ''.'' @ ext) = [name, ext]"
    using assms by (simp add: js_split_append js_split_no_sep)
  then have dots: "js_at (js_split CHR ''.'' (name @ ''.'' @ ext)) (- 2) = Some name"
    by (simp add: js_at_def)
  show ?thesis
    unfolding coverImagePublicId_def Let_def sp js_at_last js_at_last_but_one
    using dots by (simp add: js_str_def)
qed

lemma bookFilePublicId_shape:
  assumes "CHR ''/'' \<notin> set dir" "CHR ''/'' \<notin> set name"
  shows "bookFilePublicId (pre @ ''/'' @ dir @ ''/'' @ name) = dir @ ''/'' @ name"
  unfolding bookFilePublicId_def Let_def js_split_two_last [OF assms] js_at_last js_at_last_but_one
  by (simp add: js_str_def)


lemma createBook_success_run:
  assumes "first_failure (createBook_checks en req w) = None"
    and "request_file files_coverImage req = Some c"
    and "request_file files_file req = Some d"
    and "cloudinary_upload en (createBook_path en (filename c))
           (cover_opts (filename c) (last (js_split CHR ''/'' (mimetype c)))) = Inr coverUrl"
    and "cloudinary_upload en (createBook_path en (filename d)) (pdf_opts (filename d)) =
           Inr fileUrl"
    and "create_result en (createBook_doc req coverUrl fileUrl) = Inr newId"
  shows "createBook en req w =
     (Res 201 (IdBody newId),
      createBook_cleanup en (createBook_path en (filename c)) (createBook_path en (filename d))
        ((log_event (EvCreate (createBook_doc req coverUrl fileUrl))
           (log_event (EvUpload (createBook_path en (filename d)) (pdf_opts (filename d)))
             (log_event (EvUpload (createBook_path en (filename c))
                 (cover_opts (filename c) (last (js_split CHR ''/'' (mimetype c)))))
               (log_event (EvExistsSync (createBook_path en (filename d)))
                 (log_event (EvExistsSync (createBook_path en (filename c))) w)))))
         \<lparr>catalog := (catalog w)(newId \<mapsto> createBook_doc req coverUrl fileUrl)\<rparr>))"
  using createBook_checks_pass(1) [OF assms(1-3)] assms(4-6)
  by (simp add: createBook_try_def upload_def bookModel_create_def Let_def)

lemma createBook_created:
  assumes "createBook en req w = (Res 201 (IdBody newId), w1)"
  shows "\<exists>coverUrl fileUrl. catalog w1 newId = Some (createBook_doc req coverUrl fileUrl)"
proof (cases "first_failure (createBook_checks en req w)")
  case (Some m)
  then show ?thesis using createBook_failure [OF Some] assms by simp
next
  case pass: None
  then obtain c d where c: "request_file files_coverImage req = Some c"
    and d: "request_file files_file req = Some d"
    by (auto simp: createBook_checks_def Let_def split: if_splits)
  show ?thesis
  proof (cases "createBook_thrown en req c d")
    case (Some err)
    then show ?thesis
      using createBook_thrown_outcome [OF pass c d Some] createBook_error_is_Next [of err] assms
      by auto
  next
    case None
    then obtain coverUrl fileUrl i where
      u: "cloudinary_upload en (createBook_path en (filename c))
           (cover_opts (filename c) (last (js_split CHR ''/'' (mimetype c)))) = Inr coverUrl"
        "cloudinary_upload en (createBook_path en (filename d)) (pdf_opts (filename d)) =
           Inr fileUrl"
        "create_result en (createBook_doc req coverUrl fileUrl) = Inr i"
      by (auto simp: createBook_thrown_def split: sum.splits)
    show ?thesis
      using createBook_success_run [OF pass c d u] assms
      by (auto simp: createBook_cleanup_catalog)
  qed
qed

text \<open>
  Claim C9. Take a record that \<^verbatim>\<open>createBook\<close> has produced, whose cover URL has the
  shape \<^verbatim>\<open>.../<folder>/<name>.<ext>\<close> and whose document URL has the shape
  \<^verbatim>\<open>.../<folder>/<name>\<close> (a folder and a name hold no slash, the name and the extension
  of the cover hold no dot). The derivation of \<^verbatim>\<open>deleteBook\<close> gives the folder, a slash
  and the name without its extension for the cover, and the folder, a slash and the whole
  name for the document; and these are the identifiers that a following \<^verbatim>\<open>deleteBook\<close>
  of the same caller hands to the remote deletion.
\<close>

theorem publicId_round_trip:
  assumes "createBook en req w = (Res 201 (IdBody newId), w1)"
    and "catalog w1 newId = Some rec"
    and "book_coverImage rec = pre1 @ ''/'' @ coverFolder @ ''/'' @ coverName @ ''.'' @ ext"
    and "CHR ''/'' \<notin> set coverFolder" "CHR ''/'' \<notin> set coverName"
      "CHR ''.'' \<notin> set coverName" "CHR ''/'' \<notin> set ext" "CHR ''.'' \<notin> set ext"
    and "book_file rec = pre2 @ ''/'' @ fileFolder @ ''/'' @ fileName"
    and "CHR ''/'' \<notin> set fileFolder" "CHR ''/'' \<notin> set fileName"
    and "bookId req' = newId" "userId req' = userId req"
    and "findOne_error en' newId = None"
  shows "coverImagePublicId (book_coverImage rec) = coverFolder @ ''/'' @ coverName \<and>
         bookFilePublicId (book_file rec) = fileFolder @ ''/'' @ fileName \<and>
         events_since w1 (snd (deleteBook en' req' w1)) =
           [EvFindOne newId, EvDestroy (coverFolder @ ''/'' @ coverName) None] @
           (if cloudinary_destroy en' (coverFolder @ ''/'' @ coverName) None = None
            then [EvDestroy (fileFolder @ ''/'' @ fileName) (Some ''raw'')] else []) @
           [EvDeleteOne newId]"
proof -
  have cid: "coverImagePublicId (book_coverImage rec) = coverFolder @ ''/'' @ coverName"
    using coverImagePublicId_shape [OF assms(4-8)] assms(3) by simp
  have fid: "bookFilePublicId (book_file rec) = fileFolder @ ''/'' @ fileName"
    using bookFilePublicId_shape [OF assms(10,11)] assms(9) by simp
  have own: "book_author rec = userId req'"
    using createBook_created [OF assms(1)] assms(2,13) by (auto simp: createBook_doc_def)
  have "events_since w1 (snd (deleteBook en' req' w1)) =
           [EvFindOne newId, EvDestroy (coverImagePublicId (book_coverImage rec)) None] @
           (if cloudinary_destroy en' (coverImagePublicId (book_coverImage rec)) None = None
            then [EvDestroy (bookFilePublicId (book_file rec)) (Some ''raw'')] else []) @
           [EvDeleteOne newId]"
    using assms(2,12,14) own
    by (auto simp: deleteBook_def deleteBook_try_def deleteBook_remote_def destroy_def
        bookModel_findOne_def bookModel_deleteOne_def Let_def events_since_def
        split: option.splits)
  then show ?thesis using cid fid by simp
qed

theorem publicId_round_trip_witness:
  "fst (createBook demo_env demo_request demo_world) = Res 201 (IdBody ''b42'') \<and>
   catalog (snd (createBook demo_env demo_request demo_world)) ''b42'' = Some demo_book \<and>
   book_coverImage demo_book =
     ''https://res.cloudinary.com/demo/upload/v1'' @ ''/'' @ ''book-covers'' @ ''/'' @
     ''c1'' @ ''.'' @ ''jpeg'' \<and>
   book_file demo_book =
     ''https://res.cloudinary.com/demo/upload/v1'' @ ''/'' @ ''book-pdfs'' @ ''/'' @ ''b1.pdf'' \<and>
   coverImagePublicId (book_coverImage demo_book) = ''book-covers/c1'' \<and>
   bookFilePublicId (book_file demo_book) = ''book-pdfs/b1.pdf'' \<and>
   events_since (snd (createBook demo_env demo_request demo_world))
       (snd (deleteBook demo_env demo_request
              (snd (createBook demo_env demo_request demo_world)))) =
     [EvFindOne ''b42'', EvDestroy ''book-covers/c1'' None,
      EvDestroy ''book-pdfs/b1.pdf'' (Some ''raw''), EvDeleteOne ''b42'']"
proof -
  let ?w1 = "snd (createBook demo_env demo_request demo_world)"
  have created: "createBook demo_env demo_request demo_world = (Res 201 (IdBody ''b42''), ?w1)"
    by (simp add: run_demo)
  have stored: "catalog ?w1 ''b42'' = Some demo_book"
    by (simp add: run_demo)
  have cover: "book_coverImage demo_book =
      ''https://res.cloudinary.com/demo/upload/v1'' @ ''/'' @ ''book-covers'' @ ''/'' @
      ''c1'' @ ''.'' @ ''jpeg''"
    by (simp add: demo_book_def)
  have doc: "book_file demo_book =
      ''https://res.cloudinary.com/demo/upload/v1'' @ ''/'' @ ''book-pdfs'' @ ''/'' @ ''b1.pdf''"
    by (simp add: demo_book_def)
  have shape: "CHR ''/'' \<notin> set ''book-covers''" "CHR ''/'' \<notin> set ''c1''"
    "CHR ''.'' \<notin> set ''c1''" "CHR ''/'' \<notin> set ''jpeg''" "CHR ''.'' \<notin> set ''jpeg''"
    "CHR ''/'' \<notin> set ''book-pdfs''" "CHR ''/'' \<notin> set ''b1.pdf''"
    by simp_all
  have del: "bookId demo_request = ''b42''" "userId demo_request = userId demo_request"
    "findOne_error demo_env ''b42'' = None"
    by (simp_all add: demo_request_def demo_env_def)
  show ?thesis
    using stored cover doc
      publicId_round_trip [OF created stored cover shape(1-5) doc shape(6,7) del]
    by (simp add: run_demo) (simp_all add: demo_env_def)
qed

end
